theory Spec2Isabelle
  imports Main "HOL-Library.Sublist" "HOL-Library.Char_ord" "HOL-Library.List_Lexorder"
    "HOL-Library.Word"
begin

section \<open>Strings and character classes\<close>

text \<open>
  A Python \<^verbatim>\<open>str\<close> is modelled as a \<^typ>\<open>string\<close>; a \<^typ>\<open>char\<close> stands for a
  code point below 256.  On that range \<^verbatim>\<open>\d\<close> of the \<^verbatim>\<open>re\<close> module is the ten ASCII
  digits, \<^verbatim>\<open>[A-Z]\<close> under \<^verbatim>\<open>re.IGNORECASE\<close> is the 52 ASCII letters, and \<^verbatim>\<open>\s\<close> and
  \<^verbatim>\<open>str.strip()\<close> agree on the whitespace characters listed in \<open>space_chars\<close>.
\<close>

definition digit_chars :: string where
  "digit_chars = ''0123456789''"

definition upper_chars :: string where
  "upper_chars = ''ABCDEFGHIJKLMNOPQRSTUVWXYZ''"

definition lower_chars :: string where
  "lower_chars = ''abcdefghijklmnopqrstuvwxyz''"

definition space_chars :: string where
  "space_chars = [CHR 0x09, CHR 0x0A, CHR 0x0B, CHR 0x0C, CHR 0x0D,
                  CHR 0x1C, CHR 0x1D, CHR 0x1E, CHR 0x1F, CHR 0x20, CHR 0x85, CHR 0xA0]"

definition is_digit :: "char \<Rightarrow> bool" where
  "is_digit c \<longleftrightarrow> c \<in> set digit_chars"

definition is_alpha :: "char \<Rightarrow> bool" where
  "is_alpha c \<longleftrightarrow> c \<in> set upper_chars \<or> c \<in> set lower_chars"

definition is_space :: "char \<Rightarrow> bool" where
  "is_space c \<longleftrightarrow> c \<in> set space_chars"

text \<open>\<^verbatim>\<open>s.strip()\<close>: whitespace removed at both ends.\<close>

definition strip :: "string \<Rightarrow> string" where
  "strip s = rev (dropWhile is_space (rev (dropWhile is_space s)))"

text \<open>\<^verbatim>\<open>sep.join(xs)\<close>.\<close>

fun join :: "string \<Rightarrow> string list \<Rightarrow> string" where
  "join sep [] = []"
| "join sep [x] = x"
| "join sep (x # y # ys) = x @ sep @ join sep (y # ys)"

text \<open>\<^verbatim>\<open>sub in s\<close> for strings.\<close>

fun contains :: "string \<Rightarrow> string \<Rightarrow> bool" where
  "contains sub [] \<longleftrightarrow> sub = []"
| "contains sub (c # cs) \<longleftrightarrow> prefix sub (c # cs) \<or> contains sub cs"

text \<open>
  \<^verbatim>\<open>s.split(sep)\<close> for a non-empty separator: the pieces between the occurrences of
  \<open>sep\<close>, found from left to right without overlap.  \<open>cur\<close> holds the piece being read,
  reversed.
\<close>

function split_from :: "string \<Rightarrow> string \<Rightarrow> string \<Rightarrow> string list" where
  "split_from sep cur [] = [rev cur]"
| "split_from sep cur (c # cs) =
     (if sep \<noteq> [] \<and> prefix sep (c # cs)
      then rev cur # split_from sep [] (drop (length sep - 1) cs)
      else split_from sep (c # cur) cs)"
  by pat_completeness auto
termination
  by (relation "measure (\<lambda>(sep, cur, s). length s)") auto

definition split :: "string \<Rightarrow> string \<Rightarrow> string list" where
  "split s sep = split_from sep [] s"

text \<open>\<^verbatim>\<open>sorted(set(xs))\<close> on strings: code point order, no duplicates.\<close>

definition sorted_set :: "string list \<Rightarrow> string list" where
  "sorted_set xs = sort (remdups xs)"

section \<open>The regular expressions\<close>

text \<open>
  The two patterns of the program use character classes with bounded or unbounded
  greedy repetition, concatenation and optional groups.  \<open>Rep cls m n\<close> is the class
  \<open>cls\<close> repeated \<open>m\<close> to \<open>n\<close> times (\<open>None\<close>: no upper bound), \<open>Opt r\<close> is \<^verbatim>\<open>(?:r)?\<close>.

  \<open>ends r s\<close> lists, in the order in which the backtracking matcher of \<^verbatim>\<open>re\<close> tries
  them, the lengths of the prefixes of \<open>s\<close> that \<open>r\<close> matches: a greedy repetition tries
  the longest run first, an optional group is tried before it is skipped.  The match
  found at a position is the head of that list.
\<close>

datatype regex =
    Rep "char \<Rightarrow> bool" nat "nat option"
  | Seq regex regex
  | Opt regex

fun ends :: "regex \<Rightarrow> string \<Rightarrow> nat list" where
  "ends (Rep cls m n) s =
     (let run = length (takeWhile cls s);
          k = (case n of None \<Rightarrow> run | Some b \<Rightarrow> min run b)
      in rev [m..<Suc k])"
| "ends (Seq a b) s = concat (map (\<lambda>i. map (\<lambda>j. i + j) (ends b (drop i s))) (ends a s))"
| "ends (Opt a) s = ends a s @ [0]"

definition match_at :: "regex \<Rightarrow> string \<Rightarrow> nat option" where
  "match_at r s = (case ends r s of [] \<Rightarrow> None | n # _ \<Rightarrow> Some n)"

text \<open>The words a pattern describes, independently of any matching strategy.\<close>

fun lang :: "regex \<Rightarrow> string set" where
  "lang (Rep cls m n) =
     {w. list_all cls w \<and> m \<le> length w \<and> (case n of None \<Rightarrow> True | Some b \<Rightarrow> length w \<le> b)}"
| "lang (Seq a b) = {u @ v | u v. u \<in> lang a \<and> v \<in> lang b}"
| "lang (Opt a) = lang a \<union> {[]}"

text \<open>
  \<^verbatim>\<open>[m.group(0) for m in r.finditer(s)]\<close>: the scan goes from left to right; after a
  match it resumes at the end of the match, after a failure at the next character.
  The patterns of the program match no empty string (lemma \<open>no_empty_match\<close> below),
  so the scan always moves on and the branches for a match of length 0 are never
  taken.
\<close>

function finditer :: "regex \<Rightarrow> string \<Rightarrow> string list" where
  "finditer r [] = (case match_at r [] of None \<Rightarrow> [] | Some n \<Rightarrow> [''''])"
| "finditer r (c # cs) =
     (case match_at r (c # cs) of
        None \<Rightarrow> finditer r cs
      | Some n \<Rightarrow> take n (c # cs) # finditer r (drop (n - 1) cs))"
  by pat_completeness auto
termination
  by (relation "measure (\<lambda>(r, s). length s)") auto

text \<open>\<^verbatim>\<open>re.sub(r, repl, s)\<close>, used with the pattern \<^verbatim>\<open>\s+\<close> only.\<close>

function re_sub :: "regex \<Rightarrow> string \<Rightarrow> string \<Rightarrow> string" where
  "re_sub r repl [] = []"
| "re_sub r repl (c # cs) =
     (case match_at r (c # cs) of
        None \<Rightarrow> c # re_sub r repl cs
      | Some n \<Rightarrow> (if n = 0 then c # re_sub r repl cs
                   else repl @ re_sub r repl (drop (n - 1) cs)))"
  by pat_completeness auto
termination
  by (relation "measure (\<lambda>(r, repl, s). length s)") auto

text \<open>
  \<^verbatim>\<open>EMAIL_RE = re.compile(r"[A-Z0-9._%+-]+@[A-Z0-9.-]+\.[A-Z]{2,}", re.IGNORECASE)\<close>
\<close>

definition local_char :: "char \<Rightarrow> bool" where
  "local_char c \<longleftrightarrow> is_alpha c \<or> is_digit c \<or> c \<in> set ''._%+-''"

definition domain_char :: "char \<Rightarrow> bool" where
  "domain_char c \<longleftrightarrow> is_alpha c \<or> is_digit c \<or> c \<in> set ''.-''"

definition one_of :: "(char \<Rightarrow> bool) \<Rightarrow> regex" where
  "one_of cls = Rep cls 1 (Some 1)"

definition lit :: "char \<Rightarrow> regex" where
  "lit c = one_of (\<lambda>x. x = c)"

definition EMAIL_RE :: regex where
  "EMAIL_RE =
     Seq (Rep local_char 1 None)
    (Seq (lit CHR ''@'')
    (Seq (Rep domain_char 1 None)
    (Seq (lit CHR ''.'')
         (Rep is_alpha 2 None))))"

text \<open>
  \<^verbatim>\<open>PHONE_RE = re.compile(r"(?:\+?\d{1,3}[\s-]?)?(?:\(?\d{2,4}\)?[\s-]?)?\d{3,4}[\s-]?\d{3,4}")\<close>
\<close>

definition sep_char :: "char \<Rightarrow> bool" where
  "sep_char c \<longleftrightarrow> is_space c \<or> c = CHR ''-''"

definition PHONE_RE :: regex where
  "PHONE_RE =
     Seq (Opt (Seq (Opt (lit CHR ''+'')) (Seq (Rep is_digit 1 (Some 3)) (Opt (one_of sep_char)))))
    (Seq (Opt (Seq (Opt (lit CHR ''('')) (Seq (Rep is_digit 2 (Some 4))
              (Seq (Opt (lit CHR '')'')) (Opt (one_of sep_char))))))
    (Seq (Rep is_digit 3 (Some 4))
    (Seq (Opt (one_of sep_char))
         (Rep is_digit 3 (Some 4)))))"

section \<open>Text extractors\<close>

text \<open>The leading underscore of the source names \<^verbatim>\<open>_extract_emails\<close>, \<^verbatim>\<open>_get_html\<close> and the
  like is dropped: an Isabelle name cannot begin with one.\<close>

definition extract_emails :: "string \<Rightarrow> string list" where
  "extract_emails text = sorted_set (finditer EMAIL_RE text)"

text \<open>
  \<^verbatim>\<open>re.sub(r"\D", "", value)\<close> deletes every character that is not a digit; a match is
  kept when seven digits or more remain, and is stored stripped.
\<close>

definition extract_phones :: "string \<Rightarrow> string list" where
  "extract_phones text =
     sorted_set (map strip (filter (\<lambda>value. 7 \<le> length (filter is_digit value))
                                   (finditer PHONE_RE text)))"

definition cleanup_text :: "string \<Rightarrow> string" where
  "cleanup_text text = strip (re_sub (Rep is_space 1 None) '' '' text)"

section \<open>Parsed documents\<close>

text \<open>
  \<^verbatim>\<open>BeautifulSoup(html, "lxml")\<close> is a library call; an HTML text is represented by the
  tree the parser builds from it, so that the theorems hold for whatever tree that is.
  A \<open>Tag\<close> has a name, its attributes and its children; \<open>NavigableString\<close> is a text
  node that \<^verbatim>\<open>get_text\<close> returns, \<open>Comment\<close> stands for the string nodes it leaves out
  (comments, declarations, processing instructions).  The root of a document is a
  \<open>Tag\<close> too and is not among its own descendants.
\<close>

datatype node =
    Tag string "(string \<times> string) list" "node list"
  | NavigableString string
  | Comment string

type_synonym soup = node

text \<open>The nodes below a node, in document order.\<close>

fun descendants :: "node \<Rightarrow> node list" where
  "descendants (Tag nm attrs cs) = concat (map (\<lambda>c. c # descendants c) cs)"
| "descendants (NavigableString s) = []"
| "descendants (Comment s) = []"

fun is_tag :: "string \<Rightarrow> node \<Rightarrow> bool" where
  "is_tag nm (Tag nm' attrs cs) \<longleftrightarrow> nm' = nm"
| "is_tag nm (NavigableString s) \<longleftrightarrow> False"
| "is_tag nm (Comment s) \<longleftrightarrow> False"

text \<open>\<^verbatim>\<open>tag.get(key)\<close>: \<open>None\<close> when the attribute is missing.\<close>

fun get_attr :: "node \<Rightarrow> string \<Rightarrow> string option" where
  "get_attr (Tag nm attrs cs) key = map_of attrs key"
| "get_attr (NavigableString s) key = None"
| "get_attr (Comment s) key = None"

text \<open>\<^verbatim>\<open>soup.find_all(name)\<close>, also \<^verbatim>\<open>soup.select(name)\<close> for a bare tag name.\<close>

definition find_all :: "soup \<Rightarrow> string \<Rightarrow> node list" where
  "find_all sp nm = filter (is_tag nm) (descendants sp)"

text \<open>\<^verbatim>\<open>soup.find(name)\<close>, which is also what \<^verbatim>\<open>soup.title\<close> looks up.\<close>

definition find_tag :: "soup \<Rightarrow> string \<Rightarrow> node option" where
  "find_tag sp nm = (case find_all sp nm of [] \<Rightarrow> None | t # _ \<Rightarrow> Some t)"

text \<open>\<^verbatim>\<open>soup.find(name, attrs={key: v})\<close>.\<close>

definition find_with_attr :: "soup \<Rightarrow> string \<Rightarrow> string \<Rightarrow> string \<Rightarrow> node option" where
  "find_with_attr sp nm key v =
     (case filter (\<lambda>t. get_attr t key = Some v) (find_all sp nm) of
        [] \<Rightarrow> None | t # _ \<Rightarrow> Some t)"

fun text_of :: "node \<Rightarrow> string option" where
  "text_of (NavigableString s) = Some s"
| "text_of (Tag nm attrs cs) = None"
| "text_of (Comment s) = None"

text \<open>
  \<^verbatim>\<open>node.get_text(sep, strip=True)\<close>: the text nodes below the node, each stripped,
  the empty ones dropped, joined by \<open>sep\<close>.
\<close>

definition get_text :: "node \<Rightarrow> string \<Rightarrow> string" where
  "get_text nd sep =
     join sep (filter (\<lambda>s. s \<noteq> []) (map strip (List.map_filter text_of (descendants nd))))"

text \<open>
  \<^verbatim>\<open>tag.string\<close>: the only child when it is a string node of any kind, the
  \<^verbatim>\<open>.string\<close> of the only child when that is a tag, \<open>None\<close> otherwise.
\<close>

fun tag_string :: "node \<Rightarrow> string option" where
  "tag_string (Tag nm attrs [c]) =
     (case c of NavigableString s \<Rightarrow> Some s | Comment s \<Rightarrow> Some s
      | Tag nm' attrs' cs' \<Rightarrow> tag_string c)"
| "tag_string (Tag nm attrs cs) = None"
| "tag_string (NavigableString s) = Some s"
| "tag_string (Comment s) = Some s"

definition page_summary :: "soup \<Rightarrow> string" where
  "page_summary sp =
     (let paragraphs = map (\<lambda>p. get_text p '' '') (find_all sp ''p'');
          from_paragraphs =
            (if paragraphs \<noteq> [] then cleanup_text (join '' '' (take 3 paragraphs)) else [])
      in case find_with_attr sp ''meta'' ''name'' ''description'' of
           None \<Rightarrow> from_paragraphs
         | Some meta \<Rightarrow>
             (case get_attr meta ''content'' of
                None \<Rightarrow> from_paragraphs
              | Some content \<Rightarrow>
                  if content \<noteq> [] then cleanup_text content else from_paragraphs))"

definition best_title :: "soup \<Rightarrow> string" where
  "best_title sp =
     (let from_h1 =
            (case find_tag sp ''h1'' of
               Some h1 \<Rightarrow> cleanup_text (get_text h1 '' '')
             | None \<Rightarrow> [])
      in case find_tag sp ''title'' of
           None \<Rightarrow> from_h1
         | Some title \<Rightarrow>
             (case tag_string title of
                None \<Rightarrow> from_h1
              | Some s \<Rightarrow> if s \<noteq> [] then cleanup_text s else from_h1))"

section \<open>The record\<close>

record SupplierRecord =
  serial_number :: int
  name :: string
  company_details :: "string option"
  export_capabilities :: "string option"
  operational_experience_years :: "string option"
  product_service_capability :: "string option"
  annual_capacity_mt :: "string option"
  process_capabilities :: "string option"
  supply_chain_solutions_available :: "string option"
  quality_certifications :: "string option"
  business_metrics :: "string option"
  commercial_capabilities :: "string option"
  website :: "string option"
  country :: "string option"
  region :: "string option"
  year_of_establishment :: "string option"
  company_ownership :: "string option"
  management_structure :: "string option"
  factory_locations :: "string option"
  key_clients :: "string option"
  contact_person :: "string option"
  contact_number :: "string option"
  email :: "string option"
  capability_to_export :: "string option"
  global_presence :: "string option"
  products_services_offered :: "string option"
  end_use_applications :: "string option"
  key_usps :: "string option"
  total_capacity_units_per_annum :: "string option"
  open_capacity_percent :: "string option"
  process_1 :: "string option"
  process_2 :: "string option"
  process_3 :: "string option"
  other_certifications :: "string option"
  annual_revenues_usd_mn :: "string option"
  number_of_employees :: "string option"
  pricing_capabilities :: "string option"
  lead_time :: "string option"
  payment_terms :: "string option"
  sources :: "string list"
  notes_text :: "string option"

text \<open>
  \<^verbatim>\<open>SupplierRecord(serial_number=n, name=nm)\<close>: every other field takes its default,
  \<open>None\<close>, and \<open>sources\<close> the empty list.  The field \<^verbatim>\<open>notes\<close> is written \<open>notes_text\<close>.
\<close>

definition new_record :: "int \<Rightarrow> string \<Rightarrow> SupplierRecord" where
  "new_record n nm =
     \<lparr>serial_number = n, name = nm, company_details = None, export_capabilities = None,
      operational_experience_years = None, product_service_capability = None,
      annual_capacity_mt = None, process_capabilities = None,
      supply_chain_solutions_available = None, quality_certifications = None,
      business_metrics = None, commercial_capabilities = None, website = None,
      country = None, region = None, year_of_establishment = None,
      company_ownership = None, management_structure = None, factory_locations = None,
      key_clients = None, contact_person = None, contact_number = None, email = None,
      capability_to_export = None, global_presence = None,
      products_services_offered = None, end_use_applications = None, key_usps = None,
      total_capacity_units_per_annum = None, open_capacity_percent = None,
      process_1 = None, process_2 = None, process_3 = None, other_certifications = None,
      annual_revenues_usd_mn = None, number_of_employees = None,
      pricing_capabilities = None, lead_time = None, payment_terms = None,
      sources = [], notes_text = None\<rparr>"

section \<open>The libraries around the program\<close>

text \<open>
  The exceptions that can leave the functions below: a \<^verbatim>\<open>requests.RequestException\<close>,
  which \<^verbatim>\<open>build_records\<close> catches, and the \<^verbatim>\<open>ValueError\<close> and \<^verbatim>\<open>OverflowError\<close> that
  \<^verbatim>\<open>urlparse\<close> and \<^verbatim>\<open>time.sleep\<close> raise, which nothing catches.  The program reads
  the message of the first, \<^verbatim>\<open>str(exc)\<close>, and only passes the others on, so they are
  kept without their message.
\<close>

datatype exn = RequestException string | ValueError | OverflowError

text \<open>
  \<^verbatim>\<open>urlparse(url).netloc\<close> is a call into the standard library, so the program takes it
  as a parameter \<open>netloc\<close> of this type: the network location of the URL, or the
  \<^verbatim>\<open>ValueError\<close> that \<^verbatim>\<open>urlparse\<close> raises.
\<close>

type_synonym urlparse = "string \<Rightarrow> exn + string"

text \<open>
  \<open>urlsplit_netloc\<close> follows \<^verbatim>\<open>urllib.parse.urlsplit\<close> of CPython 3.11 as far as the
  network location goes: leading control characters and spaces are stripped, tabs and
  line breaks removed, a scheme (an ASCII letter, then letters, digits, \<^verbatim>\<open>+\<close>, \<^verbatim>\<open>-\<close>,
  \<^verbatim>\<open>.\<close>, up to the first colon) is split off, and when \<^verbatim>\<open>//\<close> follows, the network
  location runs to the first of \<^verbatim>\<open>/\<close>, \<^verbatim>\<open>?\<close>, \<^verbatim>\<open>#\<close>.  A bracket without its partner
  raises \<^verbatim>\<open>ValueError\<close>; with both brackets present, the text between the first \<^verbatim>\<open>[\<close>
  and the next \<^verbatim>\<open>]\<close> must be an IPvFuture literal or an IPv6 address, as
  \<^verbatim>\<open>_check_bracketed_host\<close> and the \<^verbatim>\<open>ipaddress\<close> module decide it.  (The last check
  of \<^verbatim>\<open>urlsplit\<close>, on characters that normalise to a delimiter, never fails for code
  points below 256.)  It serves as the concrete \<open>netloc\<close> where a statement is
  evaluated.
\<close>

definition scheme_char :: "char \<Rightarrow> bool" where
  "scheme_char c \<longleftrightarrow> is_alpha c \<or> is_digit c \<or> c \<in> set ''+-.''"

definition strip_scheme :: "string \<Rightarrow> string" where
  "strip_scheme url =
     (let pre = takeWhile (\<lambda>c. c \<noteq> CHR '':'') url
      in case pre of
           [] \<Rightarrow> url
         | c # cs \<Rightarrow>
             if length pre < length url \<and> is_alpha c \<and> list_all scheme_char pre
             then drop (Suc (length pre)) url else url)"

text \<open>\<^verbatim>\<open>s.partition(c)[2]\<close>: what follows the first \<open>c\<close>, empty when there is none.\<close>

definition after_first :: "char \<Rightarrow> string \<Rightarrow> string" where
  "after_first c s = drop (Suc (length (takeWhile (\<lambda>x. x \<noteq> c) s))) s"

text \<open>\<^verbatim>\<open>s.partition(c)[0]\<close>: what precedes the first \<open>c\<close>, all of \<open>s\<close> when there is none.\<close>

definition before_first :: "char \<Rightarrow> string \<Rightarrow> string" where
  "before_first c s = takeWhile (\<lambda>x. x \<noteq> c) s"

text \<open>
  \<^verbatim>\<open>ipaddress.IPv4Address(s)\<close> accepts four decimal octets separated by dots, each of
  one to three ASCII digits, without a leading zero, at most 255.
\<close>

definition decimal :: "string \<Rightarrow> nat" where
  "decimal s = foldl (\<lambda>n c. 10 * n + length (takeWhile (\<lambda>d. d \<noteq> c) digit_chars)) 0 s"

definition octet_ok :: "string \<Rightarrow> bool" where
  "octet_ok s \<longleftrightarrow>
     s \<noteq> [] \<and> list_all is_digit s \<and> length s \<le> 3
     \<and> (s = ''0'' \<or> take 1 s \<noteq> ''0'') \<and> decimal s \<le> 255"

definition ipv4_ok :: "string \<Rightarrow> bool" where
  "ipv4_ok s \<longleftrightarrow>
     CHR ''/'' \<notin> set s \<and> s \<noteq> []
     \<and> length (split s ''.'') = 4 \<and> list_all octet_ok (split s ''.'')"

text \<open>
  \<^verbatim>\<open>ipaddress.IPv6Address(s)\<close>: an optional scope after \<^verbatim>\<open>%\<close>, which must not be empty
  or hold another \<^verbatim>\<open>%\<close>; then the parts between the colons, of which the last may be
  an IPv4 address standing for two parts.  At most one part inside may be empty (the
  \<^verbatim>\<open>::\<close>); an empty first or last part must belong to it.  Every part that is read is
  one to four hexadecimal digits.
\<close>

definition hextet_ok :: "string \<Rightarrow> bool" where
  "hextet_ok s \<longleftrightarrow> s \<noteq> [] \<and> list_all (\<lambda>c. c \<in> set ''0123456789ABCDEFabcdef'') s \<and> length s \<le> 4"

definition ipv6_parts_ok :: "string list \<Rightarrow> bool" where
  "ipv6_parts_ok parts =
     (let n = length parts;
          skips = filter (\<lambda>i. parts ! i = []) [1..<n - 1]
      in n \<le> 9 \<and>
         (case skips of
            [] \<Rightarrow> n = 8 \<and> hd parts \<noteq> [] \<and> last parts \<noteq> [] \<and> list_all hextet_ok parts
          | [skip_index] \<Rightarrow>
              (let parts_hi = (if hd parts = [] then skip_index - 1 else skip_index);
                   parts_lo = (if last parts = [] then n - skip_index - 1 - 1 else n - skip_index - 1)
               in (hd parts = [] \<longrightarrow> parts_hi = 0) \<and> (last parts = [] \<longrightarrow> parts_lo = 0)
                  \<and> parts_hi + parts_lo < 8
                  \<and> list_all hextet_ok (take parts_hi parts)
                  \<and> list_all hextet_ok (drop (n - parts_lo) parts))
          | _ \<Rightarrow> False))"

definition ipv6_address_ok :: "string \<Rightarrow> bool" where
  "ipv6_address_ok ip_str =
     (ip_str \<noteq> [] \<and>
      (let parts = split ip_str '':''
       in length parts \<ge> 3 \<and>
          (if CHR ''.'' \<in> set (last parts)
           then ipv4_ok (last parts) \<and> ipv6_parts_ok (butlast parts @ [''0'', ''0''])
           else ipv6_parts_ok parts)))"

definition ipv6_ok :: "string \<Rightarrow> bool" where
  "ipv6_ok s \<longleftrightarrow>
     CHR ''/'' \<notin> set s
     \<and> (CHR ''%'' \<in> set s \<longrightarrow>
          after_first CHR ''%'' s \<noteq> [] \<and> CHR ''%'' \<notin> set (after_first CHR ''%'' s))
     \<and> ipv6_address_ok (before_first CHR ''%'' s)"

text \<open>
  \<^verbatim>\<open>_check_bracketed_host\<close>: a host that begins with \<^verbatim>\<open>v\<close> must match
  \<^verbatim>\<open>v[a-fA-F0-9]+\..+\<close>, any other must be an address that \<^verbatim>\<open>ipaddress.ip_address\<close>
  accepts and that is not an IPv4 address.
\<close>

definition ipvfuture_ok :: "string \<Rightarrow> bool" where
  "ipvfuture_ok s =
     (let digits = takeWhile (\<lambda>c. c \<in> set ''0123456789ABCDEFabcdef'') (drop 1 s);
          rest = drop (Suc (length digits)) s
      in digits \<noteq> [] \<and> take 1 rest = ''.'' \<and> drop 1 rest \<noteq> []
         \<and> CHR 0x0A \<notin> set (drop 1 rest))"

definition bracketed_host_ok :: "string \<Rightarrow> bool" where
  "bracketed_host_ok hostname =
     (if take 1 hostname = ''v'' then ipvfuture_ok hostname
      else \<not> ipv4_ok hostname \<and> ipv6_ok hostname)"

definition urlsplit_netloc :: urlparse where
  "urlsplit_netloc url0 =
     (let url1 = dropWhile (\<lambda>c. (of_char c :: nat) \<le> 32) url0;
          url2 = filter (\<lambda>c. c \<notin> set [CHR 0x09, CHR 0x0D, CHR 0x0A]) url1;
          url3 = strip_scheme url2
      in if take 2 url3 = ''//''
         then (let netloc = takeWhile (\<lambda>c. c \<notin> set ''/?#'') (drop 2 url3)
               in if (CHR ''['' \<in> set netloc \<and> CHR '']'' \<notin> set netloc)
                     \<or> (CHR '']'' \<in> set netloc \<and> CHR ''['' \<notin> set netloc)
                  then Inl ValueError
                  else if CHR ''['' \<in> set netloc \<and> CHR '']'' \<in> set netloc
                          \<and> \<not> bracketed_host_ok
                                (before_first CHR '']'' (after_first CHR ''['' netloc))
                  then Inl ValueError
                  else Inr netloc)
         else Inr [])"

text \<open>
  \<^verbatim>\<open>urllib.parse.quote_plus\<close>: letters, digits and \<^verbatim>\<open>_.-~\<close> stay, a space becomes
  \<^verbatim>\<open>+\<close>, every other character is written as the \<^verbatim>\<open>%XX\<close> of its UTF-8 bytes.
\<close>

definition hex_digit :: "nat \<Rightarrow> char" where
  "hex_digit n = ''0123456789ABCDEF'' ! (n mod 16)"

definition percent :: "nat \<Rightarrow> string" where
  "percent b = [CHR ''%'', hex_digit (b div 16), hex_digit b]"

definition utf8 :: "char \<Rightarrow> nat list" where
  "utf8 c = (let n = of_char c in if n < 128 then [n] else [192 + n div 64, 128 + n mod 64])"

definition quote_plus :: "string \<Rightarrow> string" where
  "quote_plus s =
     concat (map (\<lambda>c. if is_alpha c \<or> is_digit c \<or> c \<in> set ''_.-~'' then [c]
                       else if c = CHR '' '' then ''+''
                       else concat (map percent (utf8 c))) s)"

text \<open>\<^verbatim>\<open>str(n)\<close> for an integer.\<close>

function str_nat :: "nat \<Rightarrow> string" where
  "str_nat n = (if n < 10 then [digit_chars ! n] else str_nat (n div 10) @ [digit_chars ! (n mod 10)])"
  by pat_completeness auto
termination
  by (relation "measure id") auto

definition str_int :: "int \<Rightarrow> string" where
  "str_int i = (if i < 0 then CHR ''-'' # str_nat (nat (- i)) else str_nat (nat i))"

text \<open>
  The network.  \<^verbatim>\<open>session.get(url, timeout=30)\<close> either raises a
  \<^verbatim>\<open>RequestException\<close> (no connection, timeout, ...), given here by its message, or
  returns a response.  The body of a response, \<^verbatim>\<open>response.text\<close>, is kept as the
  document it parses to.  \<^verbatim>\<open>raise_for_status()\<close> raises an \<^verbatim>\<open>HTTPError\<close>, which is a
  \<^verbatim>\<open>RequestException\<close>, for a status from 400 to 599.
\<close>

record response =
  status_code :: int
  reason :: string
  resp_url :: string
  resp_text :: soup

type_synonym session = "string \<Rightarrow> string + response"

definition raise_for_status :: "response \<Rightarrow> exn option" where
  "raise_for_status r =
     (if 400 \<le> status_code r \<and> status_code r < 500
      then Some (RequestException (str_int (status_code r) @ '' Client Error: '' @ reason r
                                   @ '' for url: '' @ resp_url r))
      else if 500 \<le> status_code r \<and> status_code r < 600
      then Some (RequestException (str_int (status_code r) @ '' Server Error: '' @ reason r
                                   @ '' for url: '' @ resp_url r))
      else None)"

text \<open>
  \<^verbatim>\<open>time.sleep(delay_s)\<close> is a library call too, and it can raise: the program takes
  it as a parameter \<open>sleep\<close> that gives, for a delay, the exception \<^verbatim>\<open>time.sleep\<close>
  raises or \<open>None\<close> when it sleeps and returns.  The delay is a float in the source;
  the program only hands it on, so it is a value of an arbitrary type \<open>'d\<close>.

  \<open>time_sleep\<close> is the concrete \<open>sleep\<close> where a statement is evaluated, on the floats
  that \<open>delay\<close> names: \<open>Millis m\<close> is the float nearest to \<open>m\<close> thousandths of a second,
  for a 32-bit \<open>m\<close> read as a signed number (so that \<open>Millis 1500\<close> is the default
  delay of 1.5 seconds), and \<open>NaN\<close>, \<open>PosInf\<close>, \<open>NegInf\<close> are the special values.
  CPython converts the delay to nanoseconds, raising \<^verbatim>\<open>ValueError\<close> for a NaN and
  \<^verbatim>\<open>OverflowError\<close> for what does not fit 64 bits, and then raises \<^verbatim>\<open>ValueError\<close>
  for a negative length.
\<close>

type_synonym 'd sleep = "'d \<Rightarrow> exn option"

datatype delay = Millis "32 word" | NaN | PosInf | NegInf

fun time_sleep :: "delay sleep" where
  "time_sleep NaN = Some ValueError"
| "time_sleep PosInf = Some OverflowError"
| "time_sleep NegInf = Some OverflowError"
| "time_sleep (Millis m) = (if sint m < 0 then Some ValueError else None)"

text \<open>
  What the program does to the outside world is recorded, in the order in which it
  happens.  The functions that fetch return the list of the URLs they requested
  through the session together with their result or exception.  \<^verbatim>\<open>build_records\<close>
  also sleeps, so it returns a list of events: a request, or a sleep that
  \<^verbatim>\<open>time.sleep\<close> has carried out.
\<close>

type_synonym 'a fetched = "string list \<times> (exn + 'a)"

datatype 'd event = HttpGet string | Sleep 'd

definition after :: "'d event list \<Rightarrow> 'd event list \<times> 'a \<Rightarrow> 'd event list \<times> 'a" where
  "after evs m = (evs @ fst m, snd m)"

section \<open>Fetching and discovery\<close>

definition scraperapi_url :: "string \<Rightarrow> string \<Rightarrow> string \<Rightarrow> string" where
  "scraperapi_url api_key target_url country_code =
     ''https://api.scraperapi.com/?'' @ ''api_key='' @ api_key @ ''&url='' @ quote_plus target_url
       @ ''&country_code='' @ country_code"

definition get_html :: "session \<Rightarrow> string \<Rightarrow> string \<Rightarrow> string \<Rightarrow> soup fetched" where
  "get_html sess api_key url country_code =
     (let request = scraperapi_url api_key url country_code
      in ([request],
          case sess request of
            Inl msg \<Rightarrow> Inl (RequestException msg)
          | Inr resp \<Rightarrow>
              (case raise_for_status resp of
                 Some e \<Rightarrow> Inl e
               | None \<Rightarrow> Inr (resp_text resp))))"

text \<open>\<^verbatim>\<open>list(dict.fromkeys(xs))\<close>: the first occurrence of each element, in order.\<close>

fun fromkeys_from :: "'a list \<Rightarrow> 'a list \<Rightarrow> 'a list" where
  "fromkeys_from seen [] = []"
| "fromkeys_from seen (x # xs) =
     (if x \<in> set seen then fromkeys_from seen xs else x # fromkeys_from (x # seen) xs)"

definition dict_fromkeys :: "'a list \<Rightarrow> 'a list" where
  "dict_fromkeys xs = fromkeys_from [] xs"

text \<open>
  What the body of the loop of \<^verbatim>\<open>google_search\<close> extracts from one anchor: the
  target of a \<^verbatim>\<open>/url?q=\<close> link, cut at the first \<^verbatim>\<open>&\<close>, unless it is empty or
  contains \<^verbatim>\<open>google.com\<close>.  Both \<^verbatim>\<open>split\<close> results are non-empty lists (lemma
  \<open>split_nonempty\<close> below), so \<open>last\<close> and \<open>hd\<close> read an element that exists.
\<close>

definition link_of :: "node \<Rightarrow> string option" where
  "link_of result =
     (let href = (case get_attr result ''href'' of Some h \<Rightarrow> h | None \<Rightarrow> [])
      in if prefix ''/url?q='' href
         then (let link = hd (split (last (split href ''/url?q='')) ''&'')
               in if link \<noteq> [] \<and> \<not> contains ''google.com'' link then Some link else None)
         else None)"

text \<open>
  The loop itself: \<open>links\<close> is the list built so far.  The test that ends the loop
  comes after the anchor has been handled.
\<close>

fun collect_links :: "int \<Rightarrow> node list \<Rightarrow> string list \<Rightarrow> string list" where
  "collect_links num_results [] links = links"
| "collect_links num_results (result # rest) links =
     (let links' = (case link_of result of Some link \<Rightarrow> links @ [link] | None \<Rightarrow> links)
      in if int (length links') \<ge> num_results then links'
         else collect_links num_results rest links')"

definition google_search :: "session \<Rightarrow> string \<Rightarrow> string \<Rightarrow> string \<Rightarrow> int \<Rightarrow> string list fetched" where
  "google_search sess api_key query country_code num_results =
     (let search_url = ''https://www.google.com/search?q='' @ quote_plus query
                        @ ''&num='' @ str_int num_results;
          got = get_html sess api_key search_url country_code
      in (fst got,
          case snd got of
            Inl e \<Rightarrow> Inl e
          | Inr html \<Rightarrow> Inr (dict_fromkeys (collect_links num_results (find_all html ''a'') []))))"

section \<open>Interpreting a page, enrichment, and the batch\<close>

text \<open>
  \<^verbatim>\<open>scrape_supplier_page\<close> fetches the page itself and then builds the record from
  what it fetched.  The second part, everything after the call of \<^verbatim>\<open>_get_html\<close>, is
  written as the function \<open>interpret_page\<close> of the URL, the fetched document and the two
  labels.  \<^verbatim>\<open>title or urlparse(url).netloc\<close> calls \<^verbatim>\<open>urlparse\<close> only when the title is
  empty.
\<close>

definition interpret_page :: "urlparse \<Rightarrow> string \<Rightarrow> soup \<Rightarrow> string \<Rightarrow> string \<Rightarrow> exn + SupplierRecord" where
  "interpret_page netloc url html country' region' =
     (let text = get_text html '' '';
          emails = extract_emails text;
          phones = extract_phones text;
          title = best_title html;
          summary = page_summary html
      in case (if title \<noteq> [] then Inr title else netloc url) of
           Inl e \<Rightarrow> Inl e
         | Inr nm \<Rightarrow>
             Inr ((new_record 0 nm)
               \<lparr>company_details := (if summary \<noteq> [] then Some summary else None),
                website := Some url,
                country := Some country',
                region := Some region',
                contact_number := (if phones \<noteq> [] then Some (join '', '' phones) else None),
                email := (if emails \<noteq> [] then Some (join '', '' emails) else None),
                products_services_offered := None,
                export_capabilities := None,
                sources := [url],
                notes_text := None\<rparr>))"

definition scrape_supplier_page ::
  "urlparse \<Rightarrow> session \<Rightarrow> string \<Rightarrow> string \<Rightarrow> string \<Rightarrow> string \<Rightarrow> string \<Rightarrow> SupplierRecord fetched" where
  "scrape_supplier_page netloc sess api_key url country' region' country_code =
     (let got = get_html sess api_key url country_code
      in (fst got,
          case snd got of
            Inl e \<Rightarrow> Inl e
          | Inr html \<Rightarrow> interpret_page netloc url html country' region'))"

text \<open>\<^verbatim>\<open>not x\<close> for an optional string: \<open>None\<close> and the empty string are false.\<close>

definition falsy :: "string option \<Rightarrow> bool" where
  "falsy x \<longleftrightarrow> x = None \<or> x = Some []"

text \<open>The source updates the record in place; the model returns the updated record.\<close>

definition enrich_record_from_directory :: "SupplierRecord \<Rightarrow> string \<Rightarrow> SupplierRecord" where
  "enrich_record_from_directory record directory_text =
     (let emails = extract_emails directory_text;
          phones = extract_phones directory_text;
          record1 = (if emails \<noteq> [] \<and> falsy (email record)
                     then record\<lparr>email := Some (join '', '' emails)\<rparr> else record)
      in if phones \<noteq> [] \<and> falsy (contact_number record1)
         then record1\<lparr>contact_number := Some (join '', '' phones)\<rparr> else record1)"

text \<open>The record appended when the fetch of \<open>url\<close> at position \<open>idx\<close> raised \<open>msg\<close>.\<close>

definition failure_record :: "int \<Rightarrow> string \<Rightarrow> string \<Rightarrow> string \<Rightarrow> string \<Rightarrow> string \<Rightarrow> SupplierRecord" where
  "failure_record idx host url country' region' msg =
     (new_record idx host)
       \<lparr>website := Some url, country := Some country', region := Some region',
        notes_text := Some (''Failed to fetch page: '' @ msg), sources := [url]\<rparr>"

text \<open>
  One pass of the loop of \<^verbatim>\<open>build_records\<close>, for the URL \<open>url\<close> at position \<open>idx\<close>:
  its events, and the record it appends or the exception that leaves the loop.  Only
  a \<^verbatim>\<open>RequestException\<close> is caught; the handler calls \<^verbatim>\<open>urlparse\<close> itself.  The call
  of \<^verbatim>\<open>time.sleep\<close> stands in the \<^verbatim>\<open>try\<close> block, after the append; what it raises is
  no \<^verbatim>\<open>RequestException\<close> and leaves the loop as well.
\<close>

definition loop_body ::
  "urlparse \<Rightarrow> 'd sleep \<Rightarrow> session \<Rightarrow> string \<Rightarrow> string \<Rightarrow> string \<Rightarrow> string \<Rightarrow> 'd \<Rightarrow> int \<Rightarrow> string
     \<Rightarrow> 'd event list \<times> (exn + SupplierRecord)" where
  "loop_body netloc sleep sess api_key country' region' country_code delay_s idx url =
     (let attempt = scrape_supplier_page netloc sess api_key url country' region' country_code
      in case snd attempt of
           Inr record \<Rightarrow>
             (case sleep delay_s of
                None \<Rightarrow>
                  (map HttpGet (fst attempt) @ [Sleep delay_s],
                   Inr (record\<lparr>serial_number := idx\<rparr>))
              | Some e \<Rightarrow> (map HttpGet (fst attempt), Inl e))
         | Inl (RequestException msg) \<Rightarrow>
             (map HttpGet (fst attempt),
              case netloc url of
                Inl e \<Rightarrow> Inl e
              | Inr host \<Rightarrow> Inr (failure_record idx host url country' region' msg))
         | Inl e \<Rightarrow> (map HttpGet (fst attempt), Inl e))"

text \<open>
  The loop over \<^verbatim>\<open>enumerate(links, start=1)\<close>: \<open>idx\<close> is the position of the first
  URL left, \<open>records\<close> the list built so far.
\<close>

fun build_loop ::
  "urlparse \<Rightarrow> 'd sleep \<Rightarrow> session \<Rightarrow> string \<Rightarrow> string \<Rightarrow> string \<Rightarrow> string \<Rightarrow> 'd \<Rightarrow> int
     \<Rightarrow> string list \<Rightarrow> SupplierRecord list \<Rightarrow> 'd event list \<times> (exn + SupplierRecord list)" where
  "build_loop netloc sleep sess api_key country' region' country_code delay_s idx [] records =
     ([], Inr records)"
| "build_loop netloc sleep sess api_key country' region' country_code delay_s idx (url # rest) records =
     (let pass = loop_body netloc sleep sess api_key country' region' country_code delay_s idx url
      in case snd pass of
           Inl e \<Rightarrow> (fst pass, Inl e)
         | Inr record \<Rightarrow>
             after (fst pass)
               (build_loop netloc sleep sess api_key country' region' country_code delay_s (idx + 1)
                  rest (records @ [record])))"

definition build_records ::
  "urlparse \<Rightarrow> 'd sleep \<Rightarrow> session \<Rightarrow> string \<Rightarrow> string \<Rightarrow> string \<Rightarrow> string \<Rightarrow> string \<Rightarrow> int \<Rightarrow> 'd
     \<Rightarrow> 'd event list \<times> (exn + SupplierRecord list)" where
  "build_records netloc sleep sess api_key query country' region' country_code num_results delay_s =
     (let found = google_search sess api_key query country_code num_results
      in case snd found of
           Inl e \<Rightarrow> (map HttpGet (fst found), Inl e)
         | Inr links \<Rightarrow>
             after (map HttpGet (fst found))
               (build_loop netloc sleep sess api_key country' region' country_code delay_s 1 links []))"

section \<open>The grammar of the specification, and example inputs\<close>

text \<open>
  The specification describes an email as \<^verbatim>\<open>local-part@domain.tld\<close> with a top-level
  label of two letters or more.  \<open>email_grammar\<close> writes that description down, to be
  compared with what \<open>EMAIL_RE\<close> matches.
\<close>

definition email_grammar :: "string \<Rightarrow> bool" where
  "email_grammar e \<longleftrightarrow>
     (\<exists>local_part domain tld.
        e = local_part @ ''@'' @ domain @ ''.'' @ tld
        \<and> local_part \<noteq> [] \<and> list_all local_char local_part
        \<and> domain \<noteq> [] \<and> list_all domain_char domain
        \<and> 2 \<le> length tld \<and> list_all is_alpha tld)"

text \<open>
  The claims speak of the host component of a URL and of the search engine's own
  domain; the program computes neither.  \<open>host_component\<close> is the host of a URL as
  \<^verbatim>\<open>urlparse(url).hostname\<close> gives it: the network location without credentials and
  port, in lower case, \<open>None\<close> when it is empty or the URL is rejected.  A URL points
  back to the search engine when that host is \<^verbatim>\<open>google.com\<close>, the domain of the search
  URL that \<^verbatim>\<open>google_search\<close> requests, or lies below it.
\<close>

definition lower :: "char \<Rightarrow> char" where
  "lower c =
     (let n = (of_char c :: nat)
      in if (65 \<le> n \<and> n \<le> 90) \<or> (192 \<le> n \<and> n \<le> 222 \<and> n \<noteq> 215)
         then char_of (n + 32) else c)"

definition hostname :: "string \<Rightarrow> string option" where
  "hostname netloc =
     (let hostinfo = rev (takeWhile (\<lambda>c. c \<noteq> CHR ''@'') (rev netloc));
          host = (if CHR ''['' \<in> set hostinfo
                  then before_first CHR '']'' (after_first CHR ''['' hostinfo)
                  else before_first CHR '':'' hostinfo)
      in if host = [] then None
         else Some (map lower (before_first CHR ''%'' host)
                    @ drop (length (before_first CHR ''%'' host)) host))"

definition host_component :: "string \<Rightarrow> string option" where
  "host_component url = (case urlsplit_netloc url of Inl e \<Rightarrow> None | Inr netloc \<Rightarrow> hostname netloc)"

definition points_back_to_search_engine :: "string \<Rightarrow> bool" where
  "points_back_to_search_engine url =
     (case host_component url of
        None \<Rightarrow> False
      | Some host \<Rightarrow> host = ''google.com'' \<or> suffix ''.google.com'' host)"

text \<open>
  The link targets the loop of \<^verbatim>\<open>google_search\<close> can extract from a result page, all
  of them, in the order of the page; and the position at which a value first occurs in
  a list (the length of the list when it does not occur).
\<close>

definition outbound_links :: "soup \<Rightarrow> string list" where
  "outbound_links html = List.map_filter link_of (find_all html ''a'')"

definition first_index :: "'a list \<Rightarrow> 'a \<Rightarrow> nat" where
  "first_index xs x = length (takeWhile (\<lambda>y. y \<noteq> x) xs)"

text \<open>
  Inputs on which the statements below are evaluated.  \<open>listing hrefs\<close> is a result
  page whose anchors have the given \<^verbatim>\<open>href\<close> attributes; \<open>serve doc\<close> is a session that
  answers every request with status 200 and the page \<open>doc\<close>; \<open>web search_page sites\<close>
  answers a request for the search engine with \<open>search_page\<close>, a request whose URL
  contains one of the host names in \<open>sites\<close> with the page listed for it, and lets
  every other request time out.
\<close>

definition listing :: "string list \<Rightarrow> soup" where
  "listing hrefs = Tag ''[document]'' [] (map (\<lambda>h. Tag ''a'' [(''href'', h)] []) hrefs)"

definition serve :: "soup \<Rightarrow> session" where
  "serve doc request =
     Inr \<lparr>status_code = 200, reason = ''OK'', resp_url = request, resp_text = doc\<rparr>"

fun site_of :: "(string \<times> soup) list \<Rightarrow> string \<Rightarrow> soup option" where
  "site_of [] request = None"
| "site_of ((host, doc) # sites) request =
     (if contains host request then Some doc else site_of sites request)"

definition web :: "soup \<Rightarrow> (string \<times> soup) list \<Rightarrow> session" where
  "web search_page sites request =
     (if contains ''google.com'' request then serve search_page request
      else case site_of sites request of
             Some doc \<Rightarrow> serve doc request
           | None \<Rightarrow> Inl ''Read timed out.'')"

definition results_page :: soup where
  "results_page =
     listing [''/url?q=http://b.example/&sa=U'', ''/url?q=http://a.example/'',
              ''/url?q=http://b.example/'', ''/url?q=https://maps.google.com/'',
              ''/search?q=more'', ''/url?q=http://c.example/'']"

definition acme_page :: soup where
  "acme_page =
     Tag ''[document]'' []
       [Tag ''html'' []
          [Tag ''head'' [] [Tag ''title'' [] [NavigableString ''Acme Co'']],
           Tag ''body'' [] [Tag ''p'' [] [NavigableString ''Write to contact@acme.example'']]]]"

text \<open>
  The scenario of the specification: the search for \<^verbatim>\<open>acme suppliers\<close> lists
  \<^verbatim>\<open>http://a.example/\<close> and \<^verbatim>\<open>http://b.example/\<close>; the first answers with a page titled
  \<^verbatim>\<open>Acme Co\<close>, the second times out.  \<open>acme_result\<close> is the record expected for the
  first.  In \<open>broken_web\<close> the second URL is \<^verbatim>\<open>http://[\<close>, which \<^verbatim>\<open>urlparse\<close> rejects.
\<close>

definition scenario_web :: session where
  "scenario_web =
     web (listing [''/url?q=http://a.example/&sa=U'', ''/url?q=http://b.example/''])
         [(''a.example'', acme_page)]"

definition broken_web :: session where
  "broken_web =
     web (listing [''/url?q=http://a.example/'', ''/url?q=http://['']) [(''a.example'', acme_page)]"

definition acme_result :: SupplierRecord where
  "acme_result =
     (new_record 1 ''Acme Co'')
       \<lparr>company_details := Some ''Write to contact@acme.example'',
        website := Some ''http://a.example/'', country := Some ''China'',
        region := Some ''Asia'', email := Some ''contact@acme.example'',
        sources := [''http://a.example/'']\<rparr>"

definition empty_page :: soup where
  "empty_page = Tag ''[document]'' [] []"

definition acme_record :: SupplierRecord where
  "acme_record = (new_record 1 ''Acme Co'')\<lparr>email := Some ''sales@acme.example''\<rparr>"

definition contact_text :: string where
  "contact_text = ''bob@x.org, al@x.org; +1 (555) 123-4567 12345''"

section \<open>Sorting, matching and the text extractors\<close>

lemma sorted_set_props:
  "sorted (sorted_set xs) \<and> distinct (sorted_set xs) \<and> set (sorted_set xs) = set xs"
  by (simp add: sorted_set_def)

text \<open>Every length the matcher returns marks a prefix that the pattern describes.\<close>

lemma ends_sound: "n \<in> set (ends r s) \<Longrightarrow> n \<le> length s \<and> take n s \<in> lang r"
proof (induction r arbitrary: n s)
  case (Rep cls m b)
  let ?run = "length (takeWhile cls s)"
  from Rep have n: "m \<le> n" "n \<le> ?run" "case b of None \<Rightarrow> True | Some k \<Rightarrow> n \<le> k"
    by (auto simp: Let_def split: option.splits)
  have "?run \<le> length s" by (rule length_takeWhile_le)
  with n have le: "n \<le> length s" by simp
  have "take n (takeWhile cls s @ dropWhile cls s) = take n (takeWhile cls s)"
    using n(2) by (simp only: take_append) simp
  then have "take n s = take n (takeWhile cls s)" by (simp only: takeWhile_dropWhile_id)
  then have "set (take n s) \<subseteq> set (takeWhile cls s)" by (metis set_take_subset)
  then have "list_all cls (take n s)" by (auto simp: list_all_iff dest: set_takeWhileD)
  with n le show ?case by (auto split: option.splits)
next
  case (Seq a b)
  then obtain i j where i: "i \<in> set (ends a s)" and j: "j \<in> set (ends b (drop i s))"
    and n: "n = i + j"
    by auto
  from Seq.IH(1)[OF i] have a: "i \<le> length s" "take i s \<in> lang a" by auto
  from Seq.IH(2)[OF j] have b: "j \<le> length (drop i s)" "take j (drop i s) \<in> lang b" by auto
  have "take n s = take i s @ take j (drop i s)" unfolding n by (simp add: take_add)
  with a b n show ?case by auto
next
  case (Opt a)
  then show ?case by auto
qed

lemma match_at_ends: "match_at r s = Some n \<Longrightarrow> n \<in> set (ends r s)"
  by (auto simp: match_at_def split: list.splits)

lemma finditer_lang: "w \<in> set (finditer r s) \<Longrightarrow> w \<in> lang r"
proof (induction r s rule: finditer.induct)
  case (1 r)
  then obtain n where "match_at r [] = Some n" and w: "w = []"
    by (cases "match_at r []") auto
  from ends_sound[OF match_at_ends[OF this(1)]] have "[] \<in> lang r" by simp
  with w show ?case by simp
next
  case (2 r c cs)
  show ?case
  proof (cases "match_at r (c # cs)")
    case None
    with 2 show ?thesis by simp
  next
    case (Some n)
    from ends_sound[OF match_at_ends[OF Some]] have "take n (c # cs) \<in> lang r" by simp
    with 2 Some show ?thesis by auto
  qed
qed

lemma lang_lit: "lang (lit c) = {[c]}"
  by (auto simp: lit_def one_of_def list_all_iff length_Suc_conv le_Suc_eq)

lemma lang_SeqI: "u \<in> lang a \<Longrightarrow> v \<in> lang b \<Longrightarrow> u @ v \<in> lang (Seq a b)"
  by auto

text \<open>\<open>EMAIL_RE\<close> describes exactly the strings of the grammar.\<close>

lemma lang_EMAIL_RE: "w \<in> lang EMAIL_RE \<longleftrightarrow> email_grammar w"
proof
  assume "w \<in> lang EMAIL_RE"
  then obtain l x d y t where w: "w = l @ x @ d @ y @ t"
    and l: "l \<in> lang (Rep local_char 1 None)" and x: "x \<in> lang (lit CHR ''@'')"
    and d: "d \<in> lang (Rep domain_char 1 None)" and y: "y \<in> lang (lit CHR ''.'')"
    and t: "t \<in> lang (Rep is_alpha 2 None)"
    unfolding EMAIL_RE_def lang.simps by blast
  from x y have "x = ''@''" "y = ''.''" by (simp_all add: lang_lit)
  with w l d t show "email_grammar w"
    unfolding email_grammar_def by (intro exI[of _ l] exI[of _ d] exI[of _ t]) auto
next
  assume "email_grammar w"
  then obtain l d t where w: "w = l @ ''@'' @ d @ ''.'' @ t"
    and "l \<noteq> []" "list_all local_char l" "d \<noteq> []" "list_all domain_char d"
        "2 \<le> length t" "list_all is_alpha t"
    unfolding email_grammar_def by blast
  then have l: "l \<in> lang (Rep local_char 1 None)" and d: "d \<in> lang (Rep domain_char 1 None)"
    and t: "t \<in> lang (Rep is_alpha 2 None)"
    by (auto simp: Suc_le_eq)
  have x: "''@'' \<in> lang (lit CHR ''@'')" and y: "''.'' \<in> lang (lit CHR ''.'')"
    by (simp_all add: lang_lit)
  show "w \<in> lang EMAIL_RE"
    unfolding EMAIL_RE_def w by (intro lang_SeqI l d t x y)
qed

text \<open>No pattern of the program matches the empty string.\<close>

lemma lang_PHONE_RE_length: "w \<in> lang PHONE_RE \<Longrightarrow> 6 \<le> length w"
  by (auto simp: PHONE_RE_def)

lemma lang_EMAIL_RE_length: "w \<in> lang EMAIL_RE \<Longrightarrow> 6 \<le> length w"
  by (auto simp: EMAIL_RE_def lang_lit)

lemma no_empty_match:
  "match_at EMAIL_RE s \<noteq> Some 0" "match_at PHONE_RE s \<noteq> Some 0"
  "match_at (Rep is_space 1 None) s \<noteq> Some 0"
proof -
  show "match_at EMAIL_RE s \<noteq> Some 0"
    using ends_sound[of 0 EMAIL_RE s] lang_EMAIL_RE_length[of "[]"]
    by (auto dest: match_at_ends)
  show "match_at PHONE_RE s \<noteq> Some 0"
    using ends_sound[of 0 PHONE_RE s] lang_PHONE_RE_length[of "[]"]
    by (auto dest: match_at_ends)
  show "match_at (Rep is_space 1 None) s \<noteq> Some 0"
    using ends_sound[of 0 "Rep is_space 1 None" s] by (auto dest: match_at_ends)
qed

text \<open>\<^verbatim>\<open>split\<close> returns at least one piece.\<close>

lemma split_from_nonempty: "split_from sep cur s \<noteq> []"
  by (induction sep cur s rule: split_from.induct) auto

lemma split_nonempty: "split s sep \<noteq> []"
  by (simp add: split_def split_from_nonempty)

text \<open>Stripping removes whitespace only, so it keeps the digits of a match.\<close>

lemma digits_strip: "filter is_digit (strip v) = filter is_digit v"
proof -
  have nd: "is_space c \<Longrightarrow> \<not> is_digit c" for c
    by (auto simp: is_space_def is_digit_def space_chars_def digit_chars_def)
  have dw: "filter is_digit (dropWhile is_space xs) = filter is_digit xs" for xs
    by (induction xs) (auto simp: nd)
  have "filter is_digit (strip v)
        = rev (filter is_digit (dropWhile is_space (rev (dropWhile is_space v))))"
    by (simp add: strip_def rev_filter)
  also have "\<dots> = filter is_digit v" by (simp add: dw rev_filter)
  finally show ?thesis .
qed

lemma extract_emails_contact_text: "extract_emails contact_text = [''al@x.org'', ''bob@x.org'']"
  by code_simp

lemma extract_phones_contact_text: "extract_phones contact_text = [''+1 (555) 123-4567'']"
  by code_simp

text \<open>
  Claim C5.  For every text, \<^verbatim>\<open>_extract_emails\<close> returns a list that is sorted in
  code point order and free of duplicates (a list in every case, empty when nothing
  matches), and each of its elements is matched as a whole by \<open>EMAIL_RE\<close>, which is to
  say it has the shape \<^verbatim>\<open>local-part@domain.tld\<close> of the grammar.  \<^verbatim>\<open>_extract_phones\<close>
  returns a sorted list free of duplicates whose elements each hold seven digits or
  more.
\<close>

theorem extractors_sorted_unique_wellformed:
  "sorted (extract_emails t) \<and> distinct (extract_emails t)
   \<and> (\<forall>e \<in> set (extract_emails t). e \<in> lang EMAIL_RE \<and> email_grammar e)
   \<and> sorted (extract_phones t) \<and> distinct (extract_phones t)
   \<and> (\<forall>p \<in> set (extract_phones t). 7 \<le> length (filter is_digit p))"
proof -
  have e: "\<forall>e \<in> set (extract_emails t). e \<in> lang EMAIL_RE \<and> email_grammar e"
    using finditer_lang[of _ EMAIL_RE t]
    by (auto simp: extract_emails_def sorted_set_props lang_EMAIL_RE)
  have p: "\<forall>p \<in> set (extract_phones t). 7 \<le> length (filter is_digit p)"
    by (auto simp: extract_phones_def sorted_set_props digits_strip)
  show ?thesis using e p
    by (simp add: extract_emails_def extract_phones_def sorted_set_props)
qed

theorem extractors_sorted_unique_wellformed_witness:
  "extract_emails contact_text = [''al@x.org'', ''bob@x.org'']
   \<and> email_grammar ''al@x.org'' \<and> email_grammar ''bob@x.org''
   \<and> extract_phones contact_text = [''+1 (555) 123-4567'']
   \<and> 7 \<le> length (filter is_digit ''+1 (555) 123-4567'')"
  using extractors_sorted_unique_wellformed [of contact_text]
  by (simp add: extract_emails_contact_text extract_phones_contact_text)

section \<open>Directory enrichment\<close>

lemma enrich_fields:
  "enrich_record_from_directory r t =
     r\<lparr>email := (if extract_emails t \<noteq> [] \<and> falsy (email r)
                  then Some (join '', '' (extract_emails t)) else email r),
       contact_number := (if extract_phones t \<noteq> [] \<and> falsy (contact_number r)
                  then Some (join '', '' (extract_phones t)) else contact_number r)\<rparr>"
  by (simp add: enrich_record_from_directory_def Let_def)

lemma no_contact: "extract_emails ''no contact here'' = [] \<and> extract_phones ''no contact here'' = []"
  by code_simp

text \<open>
  Claim C6.  \<^verbatim>\<open>enrich_record_from_directory\<close> keeps an email and a contact number that
  are present (neither \<open>None\<close> nor empty), fills an absent one with the joined matches
  of the text when there are any, changes no other field, gives the same record when
  applied a second time with the same text, and returns the record as it was when the
  text has no email and no phone match.
\<close>

theorem enrich_fills_absent_only_idempotent:
  "(\<not> falsy (email r) \<longrightarrow> email (enrich_record_from_directory r t) = email r)
   \<and> (\<not> falsy (contact_number r) \<longrightarrow>
        contact_number (enrich_record_from_directory r t) = contact_number r)
   \<and> (falsy (email r) \<and> extract_emails t \<noteq> [] \<longrightarrow>
        email (enrich_record_from_directory r t) = Some (join '', '' (extract_emails t)))
   \<and> (falsy (contact_number r) \<and> extract_phones t \<noteq> [] \<longrightarrow>
        contact_number (enrich_record_from_directory r t) = Some (join '', '' (extract_phones t)))
   \<and> enrich_record_from_directory r t =
        r\<lparr>email := email (enrich_record_from_directory r t),
          contact_number := contact_number (enrich_record_from_directory r t)\<rparr>
   \<and> enrich_record_from_directory (enrich_record_from_directory r t) t =
        enrich_record_from_directory r t
   \<and> (extract_emails t = [] \<and> extract_phones t = [] \<longrightarrow> enrich_record_from_directory r t = r)"
  by (simp add: enrich_fields)

theorem enrich_fills_absent_only_idempotent_witness:
  "\<not> falsy (email acme_record) \<and> falsy (contact_number acme_record)
   \<and> extract_phones contact_text \<noteq> []
   \<and> email (enrich_record_from_directory acme_record contact_text) = Some ''sales@acme.example''
   \<and> contact_number (enrich_record_from_directory acme_record contact_text)
       = Some ''+1 (555) 123-4567''
   \<and> enrich_record_from_directory (enrich_record_from_directory acme_record contact_text) contact_text
       = enrich_record_from_directory acme_record contact_text
   \<and> extract_emails ''no contact here'' = [] \<and> extract_phones ''no contact here'' = []
   \<and> enrich_record_from_directory acme_record ''no contact here'' = acme_record"
  using enrich_fills_absent_only_idempotent [of acme_record contact_text]
    enrich_fills_absent_only_idempotent [of acme_record "''no contact here''"]
  by (simp add: no_contact extract_phones_contact_text falsy_def acme_record_def new_record_def)

section \<open>Discovery\<close>

lemma fromkeys_from_set: "set (fromkeys_from seen xs) = set xs - set seen"
  by (induction xs arbitrary: seen) auto

lemma fromkeys_from_distinct: "distinct (fromkeys_from seen xs)"
  by (induction xs arbitrary: seen) (auto simp: fromkeys_from_set)

lemma fromkeys_from_length: "length (fromkeys_from seen xs) \<le> length xs"
  by (induction xs arbitrary: seen) (auto simp: le_SucI)

lemma first_index_Cons: "first_index (x # xs) a = (if a = x then 0 else Suc (first_index xs a))"
  by (auto simp: first_index_def)

lemma fromkeys_from_order:
  "sorted_wrt (\<lambda>a b. first_index xs a < first_index xs b) (fromkeys_from seen xs)"
proof (induction xs arbitrary: seen)
  case Nil
  show ?case by simp
next
  case (Cons x xs)
  let ?R = "\<lambda>a b. first_index xs a < first_index xs b"
  let ?R' = "\<lambda>a b. first_index (x # xs) a < first_index (x # xs) b"
  have lift: "sorted_wrt ?R' ys" if "sorted_wrt ?R ys" "x \<notin> set ys" for ys
    using that by (induction ys) (auto simp: first_index_Cons)
  show ?case
  proof (cases "x \<in> set seen")
    case True
    then have "x \<notin> set (fromkeys_from seen xs)" by (simp add: fromkeys_from_set)
    with Cons[of seen] True show ?thesis by (simp add: lift)
  next
    case False
    have nx: "x \<notin> set (fromkeys_from (x # seen) xs)" by (simp add: fromkeys_from_set)
    have "\<forall>b \<in> set (fromkeys_from (x # seen) xs). ?R' x b"
      using nx by (auto simp: first_index_Cons)
    with Cons[of "x # seen"] nx False show ?thesis by (simp add: lift)
  qed
qed

lemma dict_fromkeys_props:
  "distinct (dict_fromkeys xs) \<and> set (dict_fromkeys xs) = set xs
   \<and> length (dict_fromkeys xs) \<le> length xs
   \<and> sorted_wrt (\<lambda>a b. first_index xs a < first_index xs b) (dict_fromkeys xs)"
  by (simp add: dict_fromkeys_def fromkeys_from_set fromkeys_from_distinct
      fromkeys_from_length fromkeys_from_order)

lemma first_index_take:
  "a \<in> set (take k xs) \<Longrightarrow> first_index (take k xs) a = first_index xs a"
proof (induction xs arbitrary: k)
  case Nil
  then show ?case by simp
next
  case (Cons x xs)
  then show ?case by (cases k) (auto simp: first_index_Cons)
qed

lemma collect_links_take:
  "int (length links) < n \<Longrightarrow>
   collect_links n anchors links = take (nat n) (links @ List.map_filter link_of anchors)"
proof (induction anchors arbitrary: links)
  case Nil
  then show ?case by (simp add: List.map_filter_def)
next
  case (Cons a anchors)
  show ?case
  proof (cases "link_of a")
    case None
    with Cons show ?thesis by simp
  next
    case (Some l)
    show ?thesis
    proof (cases "n \<le> int (length links) + 1")
      case True
      with Cons.prems have "nat n = Suc (length links)" by linarith
      with Some True show ?thesis by simp
    next
      case False
      then have "int (length (links @ [l])) < n" by simp
      from Cons.IH[OF this] Some False show ?thesis by simp
    qed
  qed
qed

lemma collect_links_prefix:
  "\<exists>k. collect_links n anchors links = links @ take k (List.map_filter link_of anchors)"
proof (induction anchors arbitrary: links)
  case Nil
  then show ?case by simp
next
  case (Cons a anchors)
  show ?case
  proof (cases "link_of a")
    case None
    show ?thesis
    proof (cases "n \<le> int (length links)")
      case True
      with None have "collect_links n (a # anchors) links = links @ take 0 (List.map_filter link_of (a # anchors))"
        by simp
      then show ?thesis by blast
    next
      case False
      from Cons[of links] obtain k where "collect_links n anchors links = links @ take k (List.map_filter link_of anchors)" by blast
      with None False show ?thesis by auto
    qed
  next
    case (Some l)
    show ?thesis
    proof (cases "n \<le> int (length links) + 1")
      case True
      with Some have "collect_links n (a # anchors) links = links @ take 1 (List.map_filter link_of (a # anchors))"
        by simp
      then show ?thesis by blast
    next
      case False
      from Cons[of "links @ [l]"] obtain k where
        "collect_links n anchors (links @ [l]) = (links @ [l]) @ take k (List.map_filter link_of anchors)" by blast
      with Some False have "collect_links n (a # anchors) links = links @ take (Suc k) (List.map_filter link_of (a # anchors))"
        by simp
      then show ?thesis by blast
    qed
  qed
qed

lemma link_of_Some: "link_of a = Some l \<Longrightarrow> l \<noteq> [] \<and> \<not> contains ''google.com'' l"
  by (auto simp: link_of_def Let_def split: if_splits)

lemma outbound_links_ok: "l \<in> set (outbound_links html) \<Longrightarrow> l \<noteq> [] \<and> \<not> contains ''google.com'' l"
  by (auto simp: outbound_links_def List.map_filter_def dest: link_of_Some)

lemma get_html_serve: "snd (get_html (serve doc) api_key url country_code) = Inr doc"
  by (simp add: get_html_def serve_def raise_for_status_def Let_def)

lemma google_search_Inr:
  assumes "snd (google_search sess api_key query country_code num_results) = Inr links"
  shows "\<exists>html. snd (get_html sess api_key
                    (''https://www.google.com/search?q='' @ quote_plus query @ ''&num='' @ str_int num_results)
                    country_code) = Inr html
              \<and> links = dict_fromkeys (collect_links num_results (find_all html ''a'') [])"
  using assms by (auto simp: google_search_def Let_def split: sum.splits)

lemma google_search_serve:
  "snd (google_search (serve html) api_key query country_code num_results)
   = Inr (dict_fromkeys (collect_links num_results (find_all html ''a'') []))"
  by (simp add: google_search_def Let_def get_html_serve)

text \<open>
  Claim C8, amended.  When the result count is at least 1 and the search returns, its
  list of URLs has no duplicates and at most that many entries, no entry is empty or
  contains the text \<^verbatim>\<open>google.com\<close> as written, and it is the list of first
  occurrences among the first \<open>num_results\<close> link targets of the page, in the order in
  which the page first shows them.
\<close>

theorem google_search_links:
  assumes "1 \<le> num_results"
    and "snd (google_search sess api_key query country_code num_results) = Inr links"
  shows "distinct links \<and> int (length links) \<le> num_results
     \<and> (\<forall>l \<in> set links. l \<noteq> [] \<and> \<not> contains ''google.com'' l)
     \<and> (\<exists>html. snd (get_html sess api_key
                    (''https://www.google.com/search?q='' @ quote_plus query @ ''&num='' @ str_int num_results)
                    country_code) = Inr html
            \<and> links = dict_fromkeys (take (nat num_results) (outbound_links html))
            \<and> sorted_wrt (\<lambda>a b. first_index (outbound_links html) a < first_index (outbound_links html) b) links)"
proof -
  from google_search_Inr[OF assms(2)] obtain html where
    html: "snd (get_html sess api_key
                    (''https://www.google.com/search?q='' @ quote_plus query @ ''&num='' @ str_int num_results)
                    country_code) = Inr html"
    and links: "links = dict_fromkeys (collect_links num_results (find_all html ''a'') [])"
    by blast
  let ?raw = "take (nat num_results) (outbound_links html)"
  have raw: "collect_links num_results (find_all html ''a'') [] = ?raw"
    using collect_links_take[of "[]" num_results "find_all html ''a''"] assms(1)
    by (simp add: outbound_links_def)
  have l: "links = dict_fromkeys ?raw" using links raw by simp
  have d: "distinct links" using l dict_fromkeys_props[of ?raw] by simp
  have "length links \<le> length ?raw" using l dict_fromkeys_props[of ?raw] by simp
  also have "\<dots> \<le> nat num_results" by simp
  finally have n: "int (length links) \<le> num_results" using assms(1) by linarith
  have sub: "set links \<subseteq> set ?raw" using l dict_fromkeys_props[of ?raw] by simp
  have ok: "\<forall>l \<in> set links. l \<noteq> [] \<and> \<not> contains ''google.com'' l"
    using sub outbound_links_ok[of _ html] by (meson in_set_takeD subsetD)
  have "sorted_wrt (\<lambda>a b. first_index ?raw a < first_index ?raw b) links"
    using l dict_fromkeys_props[of ?raw] by simp
  then have ord: "sorted_wrt (\<lambda>a b. first_index (outbound_links html) a < first_index (outbound_links html) b) links"
  proof (rule sorted_wrt_mono_rel[rotated])
    fix a b assume "a \<in> set links" "b \<in> set links" "first_index ?raw a < first_index ?raw b"
    with sub show "first_index (outbound_links html) a < first_index (outbound_links html) b"
      by (metis first_index_take subsetD)
  qed
  from html l d n ok ord show ?thesis by blast
qed


lemma results_page_outbound:
  "outbound_links results_page
   = [''http://b.example/'', ''http://a.example/'', ''http://b.example/'', ''http://c.example/'']"
  by code_simp

lemma results_page_collected:
  "dict_fromkeys (collect_links 3 (find_all results_page ''a'') [])
   = [''http://b.example/'', ''http://a.example/'']"
  by code_simp

lemma results_page_distinct_targets:
  "card (set [''http://b.example/'', ''http://a.example/'', ''http://b.example/'', ''http://c.example/'']) = 3"
  by code_simp

theorem google_search_links_witness:
  "(1::int) \<le> 3
   \<and> snd (google_search (serve results_page) ''K'' ''acme suppliers'' ''cn'' 3)
       = Inr [''http://b.example/'', ''http://a.example/'']
   \<and> distinct [''http://b.example/'', ''http://a.example/'']
   \<and> int (length [''http://b.example/'', ''http://a.example/'']) \<le> 3
   \<and> \<not> contains ''google.com'' ''http://b.example/''
   \<and> \<not> contains ''google.com'' ''http://a.example/''"
  using google_search_links [of 3 "serve results_page" "''K''" "''acme suppliers''" "''cn''"
      "[''http://b.example/'', ''http://a.example/'']"]
  by (simp add: google_search_serve results_page_collected)

text \<open>
  Claim C8 as stated fails in two ways.  For a result count of 0 the test that ends
  the loop comes after the first link has been appended, so one URL is returned where
  at most none is allowed.  And the test that keeps links to the search engine out
  looks for the text \<^verbatim>\<open>google.com\<close> in the link as written: a link whose host is
  \<^verbatim>\<open>WWW.GOOGLE.COM\<close> points back to the search engine and is returned.
\<close>

theorem google_search_zero_count_counterexample:
  "snd (google_search (serve results_page) ''K'' ''acme suppliers'' ''cn'' 0) = Inr [''http://b.example/'']
   \<and> \<not> int (length [''http://b.example/'']) \<le> 0
   \<and> snd (google_search (serve (listing [''/url?q=http://WWW.GOOGLE.COM/maps&sa=U'']))
            ''K'' ''acme suppliers'' ''cn'' 5)
       = Inr [''http://WWW.GOOGLE.COM/maps'']
   \<and> host_component ''http://WWW.GOOGLE.COM/maps'' = Some ''www.google.com''
   \<and> points_back_to_search_engine ''http://WWW.GOOGLE.COM/maps''"
  by code_simp

text \<open>
  Claim C10.  There is a result page with at least \<open>num_results\<close> different link
  targets for which \<^verbatim>\<open>google_search\<close> returns fewer than \<open>num_results\<close> URLs: the loop
  stops once \<open>num_results\<close> links are collected, duplicates among them included, and
  the duplicates are removed only afterwards.
\<close>

theorem google_search_cap_counts_duplicates:
  "\<exists>html num_results links.
      num_results \<le> int (card (set (outbound_links html)))
    \<and> snd (google_search (serve html) api_key query country_code num_results) = Inr links
    \<and> links = dict_fromkeys (take (nat num_results) (outbound_links html))
    \<and> int (length links) < num_results"
proof (intro exI conjI)
  show "3 \<le> int (card (set (outbound_links results_page)))"
    unfolding results_page_outbound results_page_distinct_targets by simp
  show "snd (google_search (serve results_page) api_key query country_code 3)
        = Inr [''http://b.example/'', ''http://a.example/'']"
    by (simp add: google_search_serve results_page_collected)
  show "[''http://b.example/'', ''http://a.example/'']
        = dict_fromkeys (take (nat 3) (outbound_links results_page))"
    by (simp add: results_page_outbound dict_fromkeys_def)
  show "int (length [''http://b.example/'', ''http://a.example/'']) < 3"
    by simp
qed

section \<open>Fetching and interpreting one page\<close>

lemma get_html_requests: "fst (get_html sess api_key url cc) = [scraperapi_url api_key url cc]"
  by (simp add: get_html_def Let_def)

lemma get_html_exn: "snd (get_html sess api_key url cc) = Inl e \<Longrightarrow> \<exists>msg. e = RequestException msg"
  by (auto simp: get_html_def Let_def raise_for_status_def split: sum.splits option.splits if_splits)

lemma scrape_requests:
  "fst (scrape_supplier_page netloc sess api_key url c r cc) = [scraperapi_url api_key url cc]"
  by (simp add: scrape_supplier_page_def Let_def get_html_requests)

lemma scrape_result:
  "snd (scrape_supplier_page netloc sess api_key url c r cc)
   = (case snd (get_html sess api_key url cc) of
        Inl e \<Rightarrow> Inl e
      | Inr html \<Rightarrow> interpret_page netloc url html c r)"
  by (simp add: scrape_supplier_page_def Let_def)

text \<open>The record of a page, field by field.\<close>

lemma interpret_page_record:
  assumes "interpret_page netloc url html c r = Inr rec"
  shows "company_details rec = (if page_summary html \<noteq> [] then Some (page_summary html) else None)"
    and "email rec =
           (if extract_emails (get_text html '' '') \<noteq> []
            then Some (join '', '' (extract_emails (get_text html '' ''))) else None)"
    and "contact_number rec =
           (if extract_phones (get_text html '' '') \<noteq> []
            then Some (join '', '' (extract_phones (get_text html '' ''))) else None)"
    and "website rec = Some url" and "sources rec = [url]"
    and "country rec = Some c" and "region rec = Some r"
    and "if best_title html \<noteq> [] then name rec = best_title html else netloc url = Inr (name rec)"
    and "rec\<lparr>name := n', company_details := d', website := w', country := c', region := r',
             contact_number := p', email := e', sources := s'\<rparr>
         = (new_record 0 n')\<lparr>company_details := d', website := w', country := c', region := r',
             contact_number := p', email := e', sources := s'\<rparr>"
  using assms by (auto simp: interpret_page_def Let_def new_record_def split: if_splits sum.splits)

lemma interpret_page_cases:
  "interpret_page netloc url html c r = Inr rec \<Longrightarrow>
     (best_title html \<noteq> [] \<and> name rec = best_title html
      \<or> best_title html = [] \<and> netloc url = Inr (name rec))
     \<and> serial_number rec = 0 \<and> website rec = Some url \<and> country rec = Some c \<and> region rec = Some r
     \<and> sources rec = [url] \<and> notes_text rec = None
     \<and> company_details rec = (if page_summary html \<noteq> [] then Some (page_summary html) else None)"
  by (auto simp: interpret_page_def Let_def new_record_def split: if_splits sum.splits)

lemma interpret_page_Inl:
  "interpret_page netloc url html c r = Inl e \<Longrightarrow> best_title html = [] \<and> netloc url = Inl e"
  by (auto simp: interpret_page_def Let_def split: if_splits sum.splits)

lemma interpret_page_total:
  "netloc url = Inr h \<Longrightarrow> \<exists>rec. interpret_page netloc url html c r = Inr rec"
  by (cases "interpret_page netloc url html c r") (auto dest: interpret_page_Inl)

text \<open>The three ways through one pass of the loop that reach its end or its sleep.\<close>

lemma loop_body_failed:
  assumes "netloc url = Inr h" and "snd (get_html sess api_key url cc) = Inl (RequestException msg)"
  shows "loop_body netloc sleep sess api_key c r cc d idx url
         = ([HttpGet (scraperapi_url api_key url cc)], Inr (failure_record idx h url c r msg))"
  using assms by (simp add: loop_body_def Let_def scrape_result scrape_requests)

lemma loop_body_fetched:
  assumes "snd (get_html sess api_key url cc) = Inr html"
    and "interpret_page netloc url html c r = Inr rec"
    and "sleep d = None"
  shows "loop_body netloc sleep sess api_key c r cc d idx url
         = ([HttpGet (scraperapi_url api_key url cc), Sleep d], Inr (rec\<lparr>serial_number := idx\<rparr>))"
  using assms by (simp add: loop_body_def Let_def scrape_result scrape_requests)

lemma loop_body_sleep_raises:
  assumes "snd (get_html sess api_key url cc) = Inr html"
    and "interpret_page netloc url html c r = Inr rec"
    and "sleep d = Some e"
  shows "loop_body netloc sleep sess api_key c r cc d idx url
         = ([HttpGet (scraperapi_url api_key url cc)], Inl e)"
  using assms by (simp add: loop_body_def Let_def scrape_result scrape_requests)

text \<open>A pass of the loop sleeps exactly when its fetch and interpretation succeeded.\<close>

lemma loop_body_events:
  "fst (loop_body netloc sleep sess api_key c r cc d idx url)
   = HttpGet (scraperapi_url api_key url cc)
     # (case snd (scrape_supplier_page netloc sess api_key url c r cc) of
          Inr rec \<Rightarrow> (case sleep d of None \<Rightarrow> [Sleep d] | Some e \<Rightarrow> [])
        | Inl e \<Rightarrow> [])"
  by (simp add: loop_body_def Let_def scrape_requests split: sum.splits exn.splits option.splits)

lemma loop_body_total:
  assumes "netloc url = Inr h" and "sleep d = None"
  shows "\<exists>rec. snd (loop_body netloc sleep sess api_key c r cc d idx url) = Inr rec"
proof (cases "snd (get_html sess api_key url cc)")
  case (Inl e)
  then obtain msg where "e = RequestException msg" by (auto dest: get_html_exn)
  with Inl have "snd (get_html sess api_key url cc) = Inl (RequestException msg)" by simp
  with assms(1) have "loop_body netloc sleep sess api_key c r cc d idx url
      = ([HttpGet (scraperapi_url api_key url cc)], Inr (failure_record idx h url c r msg))"
    by (rule loop_body_failed)
  then show ?thesis by simp
next
  case (Inr html)
  from assms(1) have "\<exists>rec. interpret_page netloc url html c r = Inr rec"
    by (rule interpret_page_total)
  then obtain rec where "interpret_page netloc url html c r = Inr rec" by blast
  with Inr have "loop_body netloc sleep sess api_key c r cc d idx url
      = ([HttpGet (scraperapi_url api_key url cc), Sleep d], Inr (rec\<lparr>serial_number := idx\<rparr>))"
    using assms(2) by (rule loop_body_fetched)
  then show ?thesis by simp
qed

lemma loop_body_Inr:
  assumes "snd (loop_body netloc sleep sess api_key c r cc d idx url) = Inr rec"
  shows "(\<exists>msg h. snd (get_html sess api_key url cc) = Inl (RequestException msg)
            \<and> netloc url = Inr h \<and> rec = failure_record idx h url c r msg)
       \<or> (\<exists>html rec0. snd (get_html sess api_key url cc) = Inr html
            \<and> interpret_page netloc url html c r = Inr rec0 \<and> sleep d = None
            \<and> rec = rec0\<lparr>serial_number := idx\<rparr>)"
proof (cases "snd (get_html sess api_key url cc)")
  case (Inl e)
  then obtain msg where e: "e = RequestException msg" by (auto dest: get_html_exn)
  with Inl assms show ?thesis
    by (auto simp: loop_body_def Let_def scrape_result split: sum.splits)
next
  case (Inr html)
  with assms show ?thesis
    by (auto simp: loop_body_def Let_def scrape_result split: sum.splits exn.splits option.splits
        dest: interpret_page_Inl)
qed

lemma build_loop_Inr:
  "snd (build_loop netloc sleep sess api_key c r cc d idx links records) = Inr out \<Longrightarrow>
   \<exists>new. out = records @ new \<and> length new = length links
     \<and> (\<forall>i < length links.
           snd (loop_body netloc sleep sess api_key c r cc d (idx + int i) (links ! i)) = Inr (new ! i))"
proof (induction links arbitrary: idx records)
  case Nil
  then show ?case by simp
next
  case (Cons u rest)
  from Cons.prems obtain rec where
    rec: "snd (loop_body netloc sleep sess api_key c r cc d idx u) = Inr rec"
    and rest: "snd (build_loop netloc sleep sess api_key c r cc d (idx + 1) rest (records @ [rec])) = Inr out"
    by (auto simp: Let_def after_def split: sum.splits)
  from Cons.IH[OF rest] obtain new where new: "out = (records @ [rec]) @ new" "length new = length rest"
    and nth: "\<forall>i < length rest.
           snd (loop_body netloc sleep sess api_key c r cc d (idx + 1 + int i) (rest ! i)) = Inr (new ! i)"
    by blast
  have "\<forall>i < length (u # rest).
           snd (loop_body netloc sleep sess api_key c r cc d (idx + int i) ((u # rest) ! i))
           = Inr ((rec # new) ! i)"
  proof (intro allI impI)
    fix i assume i: "i < length (u # rest)"
    show "snd (loop_body netloc sleep sess api_key c r cc d (idx + int i) ((u # rest) ! i))
          = Inr ((rec # new) ! i)"
    proof (cases i)
      case 0
      with rec show ?thesis by simp
    next
      case (Suc j)
      with i nth have "snd (loop_body netloc sleep sess api_key c r cc d (idx + 1 + int j) (rest ! j))
          = Inr (new ! j)"
        by simp
      moreover have "idx + 1 + int j = idx + int i" using Suc by simp
      ultimately show ?thesis using Suc by simp
    qed
  qed
  with new show ?case by (intro exI[of _ "rec # new"]) simp
qed

lemma build_loop_total:
  "\<forall>u \<in> set links. \<exists>h. netloc u = Inr h \<Longrightarrow> sleep d = None \<Longrightarrow>
   \<exists>out. snd (build_loop netloc sleep sess api_key c r cc d idx links records) = Inr out"
proof (induction links arbitrary: idx records)
  case Nil
  then show ?case by simp
next
  case (Cons u rest)
  then obtain h where "netloc u = Inr h" by auto
  then have "\<exists>rec. snd (loop_body netloc sleep sess api_key c r cc d idx u) = Inr rec"
    using Cons.prems(2) by (rule loop_body_total)
  then obtain rec where
    rec: "snd (loop_body netloc sleep sess api_key c r cc d idx u) = Inr rec" by blast
  from Cons have "\<forall>u \<in> set rest. \<exists>h. netloc u = Inr h" by simp
  from Cons.IH[OF this Cons.prems(2), of "idx + 1" "records @ [rec]"] rec show ?case
    by (simp add: Let_def after_def)
qed

lemma build_records_result:
  "snd (build_records netloc sleep sess api_key query c r cc n d)
   = (case snd (google_search sess api_key query cc n) of
        Inl e \<Rightarrow> Inl e
      | Inr links \<Rightarrow> snd (build_loop netloc sleep sess api_key c r cc d 1 links []))"
  by (simp add: build_records_def Let_def after_def split: sum.splits)

lemma failure_record_fields:
  "serial_number (failure_record idx h u c r msg) = idx"
  "name (failure_record idx h u c r msg) = h"
  "website (failure_record idx h u c r msg) = Some u"
  "notes_text (failure_record idx h u c r msg) = Some (''Failed to fetch page: '' @ msg)"
  "email (failure_record idx h u c r msg) = None"
  "contact_number (failure_record idx h u c r msg) = None"
  "company_details (failure_record idx h u c r msg) = None"
  "country (failure_record idx h u c r msg) = Some c"
  "region (failure_record idx h u c r msg) = Some r"
  "sources (failure_record idx h u c r msg) = [u]"
  by (simp_all add: failure_record_def new_record_def)

text \<open>What a record that a pass appends looks like: its number, its website and its name.\<close>

lemma loop_body_fields:
  assumes "snd (loop_body netloc sleep sess api_key c r cc d idx url) = Inr rec"
  shows "serial_number rec = idx" and "website rec = Some url"
    and "case snd (get_html sess api_key url cc) of
           Inl e \<Rightarrow> netloc url = Inr (name rec)
         | Inr html \<Rightarrow>
             if best_title html \<noteq> [] then name rec = best_title html
             else netloc url = Inr (name rec)"
  using loop_body_Inr[OF assms]
  by (auto simp: failure_record_fields dest!: interpret_page_cases)

lemma google_search_link_ok:
  assumes "snd (google_search sess api_key query cc n) = Inr links"
  shows "\<forall>l \<in> set links. l \<noteq> [] \<and> \<not> contains ''google.com'' l"
proof -
  from google_search_Inr[OF assms] obtain html where
    links: "links = dict_fromkeys (collect_links n (find_all html ''a'') [])" by blast
  from collect_links_prefix[of n "find_all html ''a''" "[]"] obtain k where
    "collect_links n (find_all html ''a'') [] = take k (outbound_links html)"
    by (auto simp: outbound_links_def)
  with links have "set links \<subseteq> set (outbound_links html)"
    using dict_fromkeys_props[of "take k (outbound_links html)"] by (auto dest: in_set_takeD)
  then show ?thesis using outbound_links_ok[of _ html] by blast
qed

lemma build_records_records:
  assumes "snd (build_records netloc sleep sess api_key query c r cc n d) = Inr records"
  shows "\<exists>links. snd (google_search sess api_key query cc n) = Inr links
           \<and> length records = length links
           \<and> (\<forall>i < length links.
                snd (loop_body netloc sleep sess api_key c r cc d (1 + int i) (links ! i))
                = Inr (records ! i))"
proof -
  from assms obtain links where links: "snd (google_search sess api_key query cc n) = Inr links"
    and loop: "snd (build_loop netloc sleep sess api_key c r cc d 1 links []) = Inr records"
    by (auto simp: build_records_result split: sum.splits)
  from build_loop_Inr[OF loop] links show ?thesis by auto
qed

lemma build_records_total:
  assumes "snd (google_search sess api_key query cc n) = Inr links"
    and "\<forall>u \<in> set links. \<exists>h. netloc u = Inr h"
    and "sleep d = None"
  shows "\<exists>records. snd (build_records netloc sleep sess api_key query c r cc n d) = Inr records"
proof -
  from assms(2,3) have "\<exists>out. snd (build_loop netloc sleep sess api_key c r cc d 1 links []) = Inr out"
    by (rule build_loop_total)
  with assms(1) show ?thesis by (simp add: build_records_result)
qed

text \<open>A text of whitespace only is cleaned to the empty string.\<close>

lemma match_at_space_run:
  assumes "list_all is_space (c # cs)"
  shows "match_at (Rep is_space 1 None) (c # cs) = Some (Suc (length cs))"
proof -
  have "takeWhile is_space (c # cs) = c # cs"
    using assms by (simp add: list_all_iff takeWhile_eq_all_conv)
  then have "ends (Rep is_space 1 None) (c # cs) = rev [1..<Suc (Suc (length cs))]"
    by (simp del: upt_Suc)
  also have "\<dots> = Suc (length cs) # rev [1..<Suc (length cs)]"
    by simp
  finally show ?thesis by (simp add: match_at_def del: upt_Suc)
qed

lemma cleanup_text_spaces: "list_all is_space s \<Longrightarrow> cleanup_text s = []"
proof (cases s)
  case Nil
  then show ?thesis by (simp add: cleanup_text_def strip_def)
next
  case (Cons c cs)
  assume "list_all is_space s"
  with Cons have "list_all is_space (c # cs)" by simp
  then have "match_at (Rep is_space 1 None) (c # cs) = Some (Suc (length cs))"
    by (rule match_at_space_run)
  then have "re_sub (Rep is_space 1 None) '' '' (c # cs) = '' ''" by simp
  moreover have "is_space CHR '' ''" by (simp add: is_space_def space_chars_def)
  ultimately show ?thesis using Cons by (simp add: cleanup_text_def strip_def)
qed

lemma join_empties: "\<forall>x \<in> set xs. x = [] \<Longrightarrow> list_all is_space (join '' '' xs)"
  by (induction "'' ''" xs rule: join.induct) (auto simp: is_space_def space_chars_def)

lemma page_summary_empty:
  assumes "find_with_attr html ''meta'' ''name'' ''description'' = None"
    and "\<forall>p \<in> set (find_all html ''p''). get_text p '' '' = []"
  shows "page_summary html = []"
proof -
  let ?ps = "map (\<lambda>p. get_text p '' '') (find_all html ''p'')"
  have "\<forall>x \<in> set (take 3 ?ps). x = []" using assms(2) by (auto dest: in_set_takeD)
  then have "cleanup_text (join '' '' (take 3 ?ps)) = []"
    by (intro cleanup_text_spaces join_empties)
  with assms(1) show ?thesis by (simp add: page_summary_def Let_def)
qed

lemma best_title_empty:
  "find_tag html ''title'' = None \<Longrightarrow> find_tag html ''h1'' = None \<Longrightarrow> best_title html = []"
  by (simp add: best_title_def)

section \<open>What holds for URLs and delays that the libraries accept\<close>

text \<open>
  When \<^verbatim>\<open>urlparse\<close> accepts the URL, a fetched page always gives a record, and a page
  with no title, no heading, no description and no paragraph text gives the network
  location as name and no company details.
\<close>

lemma scrape_supplier_page_accepted_url:
  assumes "snd (get_html sess api_key url cc) = Inr html" and "netloc url = Inr h"
  shows "\<exists>rec. snd (scrape_supplier_page netloc sess api_key url c r cc) = Inr rec
           \<and> (find_tag html ''title'' = None \<and> find_tag html ''h1'' = None
               \<and> find_with_attr html ''meta'' ''name'' ''description'' = None
               \<and> (\<forall>p \<in> set (find_all html ''p''). get_text p '' '' = [])
               \<longrightarrow> name rec = h \<and> company_details rec = None)"
proof -
  from assms(2) have "\<exists>rec. interpret_page netloc url html c r = Inr rec"
    by (rule interpret_page_total)
  then obtain rec where rec: "interpret_page netloc url html c r = Inr rec" by blast
  have "name rec = h \<and> company_details rec = None"
    if "find_tag html ''title'' = None" "find_tag html ''h1'' = None"
       "find_with_attr html ''meta'' ''name'' ''description'' = None"
       "\<forall>p \<in> set (find_all html ''p''). get_text p '' '' = []"
    using interpret_page_cases[OF rec] assms(2) that
    by (auto simp: best_title_empty page_summary_empty)
  with rec assms(1) show ?thesis by (simp add: scrape_result)
qed

text \<open>
  When \<^verbatim>\<open>urlparse\<close> accepts every URL of the list and \<^verbatim>\<open>time.sleep\<close> accepts the delay,
  the batch has one record for each URL, in order and numbered from 1, and the record
  of a URL whose fetch failed is the placeholder.
\<close>

lemma build_records_accepted_urls:
  assumes "snd (google_search sess api_key query cc n) = Inr links"
    and "\<forall>u \<in> set links. \<exists>h. netloc u = Inr h"
    and "sleep d = None"
  shows "\<exists>records. snd (build_records netloc sleep sess api_key query c r cc n d) = Inr records
           \<and> length records = length links
           \<and> map website records = map Some links
           \<and> map serial_number records = map int [1..<Suc (length links)]
           \<and> (\<forall>i msg h. i < length links
                 \<and> snd (get_html sess api_key (links ! i) cc) = Inl (RequestException msg)
                 \<and> netloc (links ! i) = Inr h
                 \<longrightarrow> records ! i = failure_record (int i + 1) h (links ! i) c r msg)"
proof -
  from assms have "\<exists>records. snd (build_records netloc sleep sess api_key query c r cc n d) = Inr records"
    by (rule build_records_total)
  then obtain records where
    records: "snd (build_records netloc sleep sess api_key query c r cc n d) = Inr records" by blast
  from build_records_records[OF records] assms(1) have len: "length records = length links"
    and nth: "\<forall>i < length links.
                snd (loop_body netloc sleep sess api_key c r cc d (1 + int i) (links ! i))
                = Inr (records ! i)"
    by auto
  have w: "map website records = map Some links"
    using len nth by (auto simp: list_eq_iff_nth_eq dest: loop_body_fields(2))
  have s: "map serial_number records = map int [1..<Suc (length links)]"
  proof (rule nth_equalityI)
    show "length (map serial_number records) = length (map int [1..<Suc (length links)])"
      using len by (simp del: upt_Suc)
  next
    fix i assume "i < length (map serial_number records)"
    then have i: "i < length links" using len by (simp del: upt_Suc)
    with nth have "serial_number (records ! i) = 1 + int i" by (auto dest: loop_body_fields(1))
    moreover have "[1..<Suc (length links)] ! i = 1 + i" using i by (simp del: upt_Suc)
    ultimately show "map serial_number records ! i = map int [1..<Suc (length links)] ! i"
      using i len by (simp del: upt_Suc)
  qed
  have f: "records ! i = failure_record (int i + 1) h (links ! i) c r msg"
    if "i < length links" "snd (get_html sess api_key (links ! i) cc) = Inl (RequestException msg)"
       "netloc (links ! i) = Inr h" for i msg h
  proof -
    from that(3,2) have "loop_body netloc sleep sess api_key c r cc d (1 + int i) (links ! i)
        = ([HttpGet (scraperapi_url api_key (links ! i) cc)],
           Inr (failure_record (1 + int i) h (links ! i) c r msg))"
      by (rule loop_body_failed)
    moreover from nth that(1) have
      "snd (loop_body netloc sleep sess api_key c r cc d (1 + int i) (links ! i)) = Inr (records ! i)"
      by blast
    ultimately show ?thesis by (simp add: add.commute)
  qed
  from records len w s f show ?thesis by blast
qed

section \<open>The page interpreter\<close>

lemma empty_page_plain:
  "find_tag empty_page ''title'' = None \<and> find_tag empty_page ''h1'' = None
   \<and> find_with_attr empty_page ''meta'' ''name'' ''description'' = None
   \<and> find_all empty_page ''p'' = []"
  by code_simp

lemma acme_interpreted:
  "interpret_page urlsplit_netloc ''http://a.example/'' acme_page ''China'' ''Asia''
   = Inr (acme_result\<lparr>serial_number := 0\<rparr>)"
  by code_simp

lemma acme_title: "best_title acme_page = ''Acme Co''"
  by code_simp

lemma netloc_examples:
  "urlsplit_netloc ''http://a.example/'' = Inr ''a.example''"
  "urlsplit_netloc ''http://b.example/'' = Inr ''b.example''"
  "urlsplit_netloc ''foo'' = Inr []"
  "urlsplit_netloc ''http://['' = Inl ValueError"
  by code_simp+

text \<open>
  Claim C4, amended.  \<^verbatim>\<open>scrape_supplier_page\<close> performs the fetch itself: it sends
  exactly one request through the session, for the URL.  The session, the API key and
  the country code reach the record only through the document that the fetch returns.
  For two runs whose fetches returned the documents \<open>html1\<close> and \<open>html2\<close> and which
  returned the records \<open>rec1\<close> and \<open>rec2\<close>: equal documents give equal company
  details, email and contact number; equal documents give equal names when the URLs
  are equal too or the document has a title; equal URLs give equal website and
  sources; equal country labels give equal countries, equal region labels equal
  regions; every other field is the same in all runs; and so runs with the same URL,
  document, country and region return the same record.
\<close>

theorem scrape_supplier_page_information_flow:
  assumes "snd (get_html sess1 key1 url1 cc1) = Inr html1"
    and "snd (get_html sess2 key2 url2 cc2) = Inr html2"
    and "snd (scrape_supplier_page netloc sess1 key1 url1 c1 r1 cc1) = Inr rec1"
    and "snd (scrape_supplier_page netloc sess2 key2 url2 c2 r2 cc2) = Inr rec2"
  shows "fst (scrape_supplier_page netloc sess1 key1 url1 c1 r1 cc1) = [scraperapi_url key1 url1 cc1]
     \<and> (html1 = html2 \<longrightarrow>
          company_details rec1 = company_details rec2 \<and> email rec1 = email rec2
          \<and> contact_number rec1 = contact_number rec2)
     \<and> (html1 = html2 \<and> (url1 = url2 \<or> best_title html1 \<noteq> []) \<longrightarrow> name rec1 = name rec2)
     \<and> (url1 = url2 \<longrightarrow> website rec1 = website rec2 \<and> sources rec1 = sources rec2)
     \<and> (c1 = c2 \<longrightarrow> country rec1 = country rec2)
     \<and> (r1 = r2 \<longrightarrow> region rec1 = region rec2)
     \<and> rec1\<lparr>name := name rec2, company_details := company_details rec2, website := website rec2,
              country := country rec2, region := region rec2, contact_number := contact_number rec2,
              email := email rec2, sources := sources rec2\<rparr> = rec2
     \<and> (html1 = html2 \<and> url1 = url2 \<and> c1 = c2 \<and> r1 = r2 \<longrightarrow> rec1 = rec2)"
proof -
  from assms(1,3) have i1: "interpret_page netloc url1 html1 c1 r1 = Inr rec1"
    by (simp add: scrape_result)
  from assms(2,4) have i2: "interpret_page netloc url2 html2 c2 r2 = Inr rec2"
    by (simp add: scrape_result)
  note f1 = interpret_page_record[OF i1] and f2 = interpret_page_record[OF i2]
  have requests: "fst (scrape_supplier_page netloc sess1 key1 url1 c1 r1 cc1) = [scraperapi_url key1 url1 cc1]"
    by (rule scrape_requests)
  have a: "company_details rec1 = company_details rec2 \<and> email rec1 = email rec2
          \<and> contact_number rec1 = contact_number rec2" if "html1 = html2"
    using that by (simp only: f1(1-3) f2(1-3))
  have b: "name rec1 = name rec2" if "html1 = html2" "url1 = url2 \<or> best_title html1 \<noteq> []"
    using f1(8) f2(8) that by (auto split: if_splits)
  have c: "website rec1 = website rec2 \<and> sources rec1 = sources rec2" if "url1 = url2"
    using that by (simp only: f1(4,5) f2(4,5))
  have d: "country rec1 = country rec2" if "c1 = c2"
    using that by (simp only: f1(6) f2(6))
  have e: "region rec1 = region rec2" if "r1 = r2"
    using that by (simp only: f1(7) f2(7))
  have "rec2\<lparr>name := name rec2, company_details := company_details rec2, website := website rec2,
              country := country rec2, region := region rec2, contact_number := contact_number rec2,
              email := email rec2, sources := sources rec2\<rparr> = rec2"
    by simp
  then have f: "rec1\<lparr>name := name rec2, company_details := company_details rec2, website := website rec2,
              country := country rec2, region := region rec2, contact_number := contact_number rec2,
              email := email rec2, sources := sources rec2\<rparr> = rec2"
    by (simp only: f1(9) f2(9))
  have g: "rec1 = rec2" if "html1 = html2" "url1 = url2" "c1 = c2" "r1 = r2"
  proof -
    from that a b c d e have "name rec2 = name rec1" "company_details rec2 = company_details rec1"
      "website rec2 = website rec1" "country rec2 = country rec1" "region rec2 = region rec1"
      "contact_number rec2 = contact_number rec1" "email rec2 = email rec1" "sources rec2 = sources rec1"
      by simp_all
    with f have "rec1\<lparr>name := name rec1, company_details := company_details rec1, website := website rec1,
              country := country rec1, region := region rec1, contact_number := contact_number rec1,
              email := email rec1, sources := sources rec1\<rparr> = rec2"
      by (simp only:)
    then show ?thesis by simp
  qed
  from requests a b c d e f g show ?thesis by blast
qed

theorem scrape_supplier_page_information_flow_witness:
  "snd (get_html (serve acme_page) ''K'' ''http://a.example/'' ''cn'') = Inr acme_page
   \<and> snd (get_html scenario_web ''other key'' ''http://a.example/'' ''us'') = Inr acme_page
   \<and> snd (scrape_supplier_page urlsplit_netloc (serve acme_page) ''K'' ''http://a.example/'' ''China'' ''Asia'' ''cn'')
       = Inr (acme_result\<lparr>serial_number := 0\<rparr>)
   \<and> snd (scrape_supplier_page urlsplit_netloc scenario_web ''other key'' ''http://a.example/'' ''China'' ''Asia'' ''us'')
       = Inr (acme_result\<lparr>serial_number := 0\<rparr>)
   \<and> fst (scrape_supplier_page urlsplit_netloc (serve acme_page) ''K'' ''http://a.example/'' ''China'' ''Asia'' ''cn'')
       = [scraperapi_url ''K'' ''http://a.example/'' ''cn'']"
proof -
  have a: "snd (get_html (serve acme_page) ''K'' ''http://a.example/'' ''cn'') = Inr acme_page"
    by (rule get_html_serve)
  have b: "snd (get_html scenario_web ''other key'' ''http://a.example/'' ''us'') = Inr acme_page"
    by code_simp
  have c: "snd (scrape_supplier_page urlsplit_netloc (serve acme_page) ''K'' ''http://a.example/'' ''China'' ''Asia'' ''cn'')
       = Inr (acme_result\<lparr>serial_number := 0\<rparr>)"
    using a by (simp add: scrape_result acme_interpreted)
  have d: "snd (scrape_supplier_page urlsplit_netloc scenario_web ''other key'' ''http://a.example/'' ''China'' ''Asia'' ''us'')
       = Inr (acme_result\<lparr>serial_number := 0\<rparr>)"
    using b by (simp add: scrape_result acme_interpreted)
  from scrape_supplier_page_information_flow [OF a b c d] a b c d show ?thesis by simp
qed

text \<open>
  Claim C4 as stated fails: the function requests a URL through the session, and with
  the same URL, country and region its result changes with what the network answers:
  a record with a title, a record without, or the exception of a failed fetch.
\<close>

theorem scrape_supplier_page_uses_network_counterexample:
  "fst (scrape_supplier_page urlsplit_netloc (serve acme_page) ''K'' ''http://a.example/'' ''China'' ''Asia'' ''cn'')
     = [''https://api.scraperapi.com/?api_key=K&url=http%3A%2F%2Fa.example%2F&country_code=cn'']
   \<and> snd (scrape_supplier_page urlsplit_netloc (serve acme_page) ''K'' ''http://a.example/'' ''China'' ''Asia'' ''cn'')
     = Inr (acme_result\<lparr>serial_number := 0\<rparr>)
   \<and> snd (scrape_supplier_page urlsplit_netloc (serve empty_page) ''K'' ''http://a.example/'' ''China'' ''Asia'' ''cn'')
     = Inr ((new_record 0 ''a.example'')\<lparr>website := Some ''http://a.example/'', country := Some ''China'',
              region := Some ''Asia'', sources := [''http://a.example/'']\<rparr>)
   \<and> snd (scrape_supplier_page urlsplit_netloc (web empty_page []) ''K'' ''http://a.example/'' ''China'' ''Asia'' ''cn'')
     = Inl (RequestException ''Read timed out.'')"
  by code_simp

text \<open>
  Claim C7 on the code.  The fetch returns the empty document for the URL
  \<^verbatim>\<open>http://[\<close>.  The document has no title, so the name falls back to
  \<^verbatim>\<open>urlparse(url).netloc\<close>; \<^verbatim>\<open>urlparse\<close> rejects the URL, nothing catches its
  \<^verbatim>\<open>ValueError\<close>, and the function returns no record.  And for the URL
  \<^verbatim>\<open>http://user:pw@a.example:8080/x\<close> the name of the record is the network location
  with its credentials and port, where the host component is \<^verbatim>\<open>a.example\<close>.
\<close>

theorem scrape_supplier_page_raises_on_rejected_url:
  "snd (get_html (serve empty_page) ''K'' ''http://['' ''cn'') = Inr empty_page
   \<and> find_tag empty_page ''title'' = None \<and> find_tag empty_page ''h1'' = None
   \<and> find_with_attr empty_page ''meta'' ''name'' ''description'' = None
   \<and> find_all empty_page ''p'' = []
   \<and> interpret_page urlsplit_netloc ''http://['' empty_page ''China'' ''Asia'' = Inl ValueError
   \<and> snd (scrape_supplier_page urlsplit_netloc (serve empty_page) ''K'' ''http://['' ''China'' ''Asia'' ''cn'')
       = Inl ValueError
   \<and> snd (scrape_supplier_page urlsplit_netloc (serve empty_page) ''K'' ''http://user:pw@a.example:8080/x''
            ''China'' ''Asia'' ''cn'')
       = Inr ((new_record 0 ''user:pw@a.example:8080'')
                \<lparr>website := Some ''http://user:pw@a.example:8080/x'', country := Some ''China'',
                 region := Some ''Asia'', sources := [''http://user:pw@a.example:8080/x'']\<rparr>)
   \<and> host_component ''http://user:pw@a.example:8080/x'' = Some ''a.example''"
  by code_simp

section \<open>The batch\<close>

lemma scenario_run:
  "build_records urlsplit_netloc time_sleep scenario_web ''K'' ''acme suppliers'' ''China'' ''Asia'' ''cn'' 2
     (Millis 1500)
   = ([HttpGet (scraperapi_url ''K'' ''https://www.google.com/search?q=acme+suppliers&num=2'' ''cn''),
       HttpGet (scraperapi_url ''K'' ''http://a.example/'' ''cn''),
       Sleep (Millis 1500),
       HttpGet (scraperapi_url ''K'' ''http://b.example/'' ''cn'')],
      Inr [acme_result,
           failure_record 2 ''b.example'' ''http://b.example/'' ''China'' ''Asia'' ''Read timed out.''])"
  by code_simp

lemma scenario_fetches:
  "snd (get_html scenario_web ''K'' ''http://a.example/'' ''cn'') = Inr acme_page"
  "snd (get_html scenario_web ''K'' ''http://b.example/'' ''cn'') = Inl (RequestException ''Read timed out.'')"
  by code_simp+

text \<open>
  \<^verbatim>\<open>time.sleep\<close> rejects a negative delay, and nothing catches its \<^verbatim>\<open>ValueError\<close>
  either: with a delay of minus one second the first fetched page ends the batch.
\<close>

lemma build_records_negative_delay:
  "build_records urlsplit_netloc time_sleep scenario_web ''K'' ''acme suppliers'' ''China'' ''Asia'' ''cn'' 2
     (Millis (- 1000))
   = ([HttpGet (scraperapi_url ''K'' ''https://www.google.com/search?q=acme+suppliers&num=2'' ''cn''),
       HttpGet (scraperapi_url ''K'' ''http://a.example/'' ''cn'')],
      Inl ValueError)"
  by code_simp

text \<open>
  Claim C1 on the code.  The search returns one URL, \<^verbatim>\<open>http://[\<close>, and its fetch times
  out.  The handler for the failed fetch calls \<^verbatim>\<open>urlparse\<close> on the URL, \<^verbatim>\<open>urlparse\<close>
  rejects it, and the \<^verbatim>\<open>ValueError\<close> leaves \<^verbatim>\<open>build_records\<close>: one URL, and no list of
  records at all.
\<close>

theorem build_records_aborts_on_rejected_url:
  "snd (google_search (web (listing [''/url?q=http://['']) []) ''K'' ''acme suppliers'' ''cn'' 5)
     = Inr [''http://['']
   \<and> snd (get_html (web (listing [''/url?q=http://['']) []) ''K'' ''http://['' ''cn'')
     = Inl (RequestException ''Read timed out.'')
   \<and> time_sleep (Millis 1500) = None
   \<and> build_records urlsplit_netloc time_sleep (web (listing [''/url?q=http://['']) []) ''K''
        ''acme suppliers'' ''China'' ''Asia'' ''cn'' 5 (Millis 1500)
     = ([HttpGet (scraperapi_url ''K'' ''https://www.google.com/search?q=acme+suppliers&num=5'' ''cn''),
         HttpGet (scraperapi_url ''K'' ''http://['' ''cn'')],
        Inl ValueError)"
  by code_simp

text \<open>
  Claim C2 on the code.  The search returns \<^verbatim>\<open>http://a.example/\<close> and \<^verbatim>\<open>http://[\<close>; the
  first is fetched, the fetch of the second times out.  No placeholder is appended for
  it and the batch is not continued: the handler's own call of \<^verbatim>\<open>urlparse\<close> raises
  \<^verbatim>\<open>ValueError\<close>, and the record of the first URL is lost with it.  And where the
  placeholder is built, for \<^verbatim>\<open>http://b.example:8080/\<close>, its name is the network
  location with the port, where the host component is \<^verbatim>\<open>b.example\<close>.
\<close>

theorem failed_fetch_aborts_batch:
  "snd (google_search broken_web ''K'' ''acme suppliers'' ''cn'' 5) = Inr [''http://a.example/'', ''http://['']
   \<and> snd (get_html broken_web ''K'' ''http://a.example/'' ''cn'') = Inr acme_page
   \<and> snd (get_html broken_web ''K'' ''http://['' ''cn'') = Inl (RequestException ''Read timed out.'')
   \<and> snd (build_records urlsplit_netloc time_sleep broken_web ''K'' ''acme suppliers'' ''China'' ''Asia'' ''cn'' 5
            (Millis 1500))
     = Inl ValueError
   \<and> snd (build_records urlsplit_netloc time_sleep (web (listing [''/url?q=http://b.example:8080/'']) []) ''K''
            ''acme suppliers'' ''China'' ''Asia'' ''cn'' 5 (Millis 1500))
     = Inr [failure_record 1 ''b.example:8080'' ''http://b.example:8080/'' ''China'' ''Asia'' ''Read timed out.'']
   \<and> name (failure_record 1 ''b.example:8080'' ''http://b.example:8080/'' ''China'' ''Asia'' ''Read timed out.'')
     = ''b.example:8080''
   \<and> host_component ''http://b.example:8080/'' = Some ''b.example''"
  by code_simp

text \<open>
  Claim C9, amended.  Every record that \<^verbatim>\<open>build_records\<close> returns has a non-empty
  website \<open>u\<close>.  When the fetch of \<open>u\<close> failed, its name is the network location of
  \<open>u\<close>, which is \<^verbatim>\<open>urlparse(u).netloc\<close>; when the fetch returned a page, its name is
  the title of the page if that is not empty, and the network location of \<open>u\<close> if it
  is.  The name is not empty unless that network location is.
\<close>

theorem build_records_website_and_name:
  assumes "snd (build_records netloc sleep sess api_key query c r cc n d) = Inr records"
    and "rec \<in> set records"
  shows "\<exists>u. website rec = Some u \<and> u \<noteq> []
          \<and> (case snd (get_html sess api_key u cc) of
                Inl e \<Rightarrow> netloc u = Inr (name rec)
              | Inr html \<Rightarrow>
                  if best_title html \<noteq> [] then name rec = best_title html
                  else netloc u = Inr (name rec))
          \<and> (netloc u \<noteq> Inr [] \<longrightarrow> name rec \<noteq> [])"
proof -
  from build_records_records[OF assms(1)] obtain links where
    links: "snd (google_search sess api_key query cc n) = Inr links"
    and len: "length records = length links"
    and nth: "\<forall>i < length links.
                snd (loop_body netloc sleep sess api_key c r cc d (1 + int i) (links ! i))
                = Inr (records ! i)"
    by blast
  from assms(2) len obtain i where i: "i < length links" and rec: "rec = records ! i"
    by (metis in_set_conv_nth)
  with nth have body: "snd (loop_body netloc sleep sess api_key c r cc d (1 + int i) (links ! i)) = Inr rec"
    by simp
  from google_search_link_ok[OF links] i have ne: "links ! i \<noteq> []" by simp
  note name = loop_body_fields(3)[OF body]
  have "netloc (links ! i) \<noteq> Inr [] \<longrightarrow> name rec \<noteq> []"
    using name by (auto split: sum.splits if_splits)
  with loop_body_fields(2)[OF body] ne name show ?thesis
    by (intro exI[of _ "links ! i"]) simp
qed

theorem build_records_website_and_name_witness:
  "snd (build_records urlsplit_netloc time_sleep scenario_web ''K'' ''acme suppliers'' ''China'' ''Asia'' ''cn'' 2
          (Millis 1500))
     = Inr [acme_result, failure_record 2 ''b.example'' ''http://b.example/'' ''China'' ''Asia'' ''Read timed out.'']
   \<and> website acme_result = Some ''http://a.example/''
   \<and> snd (get_html scenario_web ''K'' ''http://a.example/'' ''cn'') = Inr acme_page
   \<and> best_title acme_page = ''Acme Co''
   \<and> name acme_result = ''Acme Co''"
  using build_records_website_and_name [of urlsplit_netloc time_sleep scenario_web "''K''" "''acme suppliers''"
      "''China''" "''Asia''" "''cn''" 2 "Millis 1500"
      "[acme_result, failure_record 2 ''b.example'' ''http://b.example/'' ''China'' ''Asia'' ''Read timed out.'']"
      acme_result]
  by (auto simp: scenario_run scenario_fetches acme_title acme_result_def new_record_def)

text \<open>
  Claim C9 as stated fails in two ways.  A link without a network location gives a
  record without a name: \<^verbatim>\<open>foo\<close> is fetched and has no title, the fetch of \<^verbatim>\<open>bar\<close>
  fails, and both records have the empty name.  And the fallback is the network
  location, not the host component: for \<^verbatim>\<open>http://user:pw@a.example:8080/x\<close>, fetched
  without a title, and for \<^verbatim>\<open>http://b.example:8080/\<close>, whose fetch fails, the names
  carry the credentials and the port, where the host components are \<^verbatim>\<open>a.example\<close> and
  \<^verbatim>\<open>b.example\<close>.
\<close>

theorem build_records_empty_name_counterexample:
  "snd (build_records urlsplit_netloc time_sleep
          (web (listing [''/url?q=foo'', ''/url?q=bar'']) [(''foo'', empty_page)])
          ''K'' ''acme suppliers'' ''China'' ''Asia'' ''cn'' 5 (Millis 1500))
     = Inr [(new_record 1 [])\<lparr>website := Some ''foo'', country := Some ''China'', region := Some ''Asia'',
                               sources := [''foo'']\<rparr>,
            failure_record 2 [] ''bar'' ''China'' ''Asia'' ''Read timed out.'']
   \<and> name ((new_record 1 [])\<lparr>website := Some ''foo'', country := Some ''China'', region := Some ''Asia'',
                               sources := [''foo'']\<rparr>) = []
   \<and> name (failure_record 2 [] ''bar'' ''China'' ''Asia'' ''Read timed out.'') = []
   \<and> snd (build_records urlsplit_netloc time_sleep
          (web (listing [''/url?q=http://user:pw@a.example:8080/x'', ''/url?q=http://b.example:8080/''])
               [(''a.example'', empty_page)])
          ''K'' ''acme suppliers'' ''China'' ''Asia'' ''cn'' 5 (Millis 1500))
     = Inr [(new_record 1 ''user:pw@a.example:8080'')
              \<lparr>website := Some ''http://user:pw@a.example:8080/x'', country := Some ''China'',
               region := Some ''Asia'', sources := [''http://user:pw@a.example:8080/x'']\<rparr>,
            failure_record 2 ''b.example:8080'' ''http://b.example:8080/'' ''China'' ''Asia'' ''Read timed out.'']
   \<and> name (failure_record 2 ''b.example:8080'' ''http://b.example:8080/'' ''China'' ''Asia'' ''Read timed out.'')
     = ''b.example:8080''
   \<and> host_component ''http://user:pw@a.example:8080/x'' = Some ''a.example''
   \<and> host_component ''http://b.example:8080/'' = Some ''b.example''"
  by code_simp

text \<open>
  Claim C3 on the code.  The fetch of the first URL fails and that of the second
  succeeds: no \<open>Sleep\<close> stands between the two requests, the only one follows the
  successful fetch.
\<close>

theorem no_sleep_after_failed_fetch:
  "fst (build_records urlsplit_netloc time_sleep
          (web (listing [''/url?q=http://b.example/'', ''/url?q=http://a.example/'']) [(''a.example'', acme_page)])
          ''K'' ''acme suppliers'' ''China'' ''Asia'' ''cn'' 2 (Millis 1500))
   = [HttpGet (scraperapi_url ''K'' ''https://www.google.com/search?q=acme+suppliers&num=2'' ''cn''),
      HttpGet (scraperapi_url ''K'' ''http://b.example/'' ''cn''),
      HttpGet (scraperapi_url ''K'' ''http://a.example/'' ''cn''),
      Sleep (Millis 1500)]"
  by code_simp

end
